theory Spec2Isabelle
  imports Complex_Main
begin

section \<open>Spectral Residual anomaly scoring (merlion/models/anomaly/spectral_residual.py)\<close>

text \<open>
  Arrays of float64 are modelled as lists of reals (and of complex numbers inside the
  Fourier stage): arithmetic is exact, and the IEEE special values have no counterpart.
  Where numpy yields \<open>nan\<close> or \<open>inf\<close> without raising (the mean of an empty array, a float
  division by zero, the logarithm of a zero amplitude) the model carries HOL's value of the
  same expression (\<open>x / 0 = 0\<close>, \<open>ln 0 = 0\<close>). Shapes, indices and raised exceptions
  are the same in both readings; values agree wherever no such operation occurs.
\<close>

subsection \<open>Exceptions and results\<close>

datatype error =
    IndexError
  | ValueError
  | RuntimeError string
  | AssertionError string
  | TypeError
  | NewAxis

text \<open>
  \<open>NewAxis\<close> is not an exception of the source: it marks \<open>values[:, None]\<close>, where
  numpy inserts an axis and the array leaves the one-dimensional model. \<open>_train\<close> never
  calls the scorer with an unset index.
\<close>

definition bind :: "error + 'a \<Rightarrow> ('a \<Rightarrow> error + 'b) \<Rightarrow> error + 'b" where
  "bind r f = (case r of Inl e \<Rightarrow> Inl e | Inr v \<Rightarrow> f v)"

subsection \<open>Python and numpy primitives on one-dimensional arrays\<close>

definition py_index :: "'a list \<Rightarrow> int \<Rightarrow> error + 'a" where
  \<comment> \<open>\<open>xs[i]\<close>: \<open>-len \<le> i < 0\<close> reads from the end; beyond either end the read raises.\<close>
  "py_index xs i =
     (if 0 \<le> i \<and> i < int (length xs) then Inr (xs ! nat i)
      else if - int (length xs) \<le> i \<and> i < 0 then Inr (xs ! nat (int (length xs) + i))
      else Inl IndexError)"

definition slice_bound :: "nat \<Rightarrow> int \<Rightarrow> nat" where
  \<comment> \<open>A slice bound is shifted by the length when negative, then clamped to \<open>[0, n]\<close>.\<close>
  "slice_bound n i = (if i < 0 then nat (max (int n + i) 0) else min (nat i) n)"

definition py_slice :: "'a list \<Rightarrow> int \<Rightarrow> int \<Rightarrow> 'a list" where
  \<comment> \<open>\<open>xs[start:stop]\<close>\<close>
  "py_slice xs start stop =
     drop (slice_bound (length xs) start) (take (slice_bound (length xs) stop) xs)"

definition py_slice_from :: "'a list \<Rightarrow> int \<Rightarrow> 'a list" where
  \<comment> \<open>\<open>xs[start:]\<close>\<close>
  "py_slice_from xs start = drop (slice_bound (length xs) start) xs"

definition py_slice_to :: "'a list \<Rightarrow> int \<Rightarrow> 'a list" where
  \<comment> \<open>\<open>xs[:stop]\<close>\<close>
  "py_slice_to xs stop = take (slice_bound (length xs) stop) xs"

definition np_arange :: "int \<Rightarrow> int \<Rightarrow> int list" where
  \<comment> \<open>\<open>np.arange(lo, hi)\<close>: the integers \<open>lo, ..., hi - 1\<close>\<close>
  "np_arange lo hi = [lo..hi - 1]"

definition np_ones :: "int \<Rightarrow> error + real list" where
  \<comment> \<open>\<open>np.ones(n)\<close> raises on a negative dimension.\<close>
  "np_ones n = (if n < 0 then Inl ValueError else Inr (replicate (nat n) 1))"

definition np_broadcast :: "('a \<Rightarrow> 'b \<Rightarrow> 'c) \<Rightarrow> 'a list \<Rightarrow> 'b list \<Rightarrow> error + 'c list" where
  \<comment> \<open>An element-wise binary operation on two 1-D arrays: equal shapes, or one of them of
      length 1 stretched to the other; anything else raises.\<close>
  "np_broadcast f xs ys =
     (if length xs = length ys then Inr (map2 f xs ys)
      else if length xs = 1 then Inr (map (f (hd xs)) ys)
      else if length ys = 1 then Inr (map (\<lambda>x. f x (hd ys)) xs)
      else Inl ValueError)"

definition np_average :: "real list \<Rightarrow> real" where
  \<comment> \<open>\<open>np.average\<close>; of an empty array numpy gives \<open>nan\<close> with a warning.\<close>
  "np_average xs = sum_list xs / real (length xs)"

definition np_pad :: "real list \<Rightarrow> int \<Rightarrow> real \<Rightarrow> error + real list" where
  \<comment> \<open>\<open>np.pad(values, ((0, k),), constant_values=item)\<close>; a negative width raises.\<close>
  "np_pad values k item =
     (if k < 0 then Inl ValueError else Inr (values @ replicate (nat k) item))"

datatype conv_mode = Full | Same

definition convolve_full :: "real list \<Rightarrow> real list \<Rightarrow> real list" where
  \<comment> \<open>The discrete linear convolution \<open>(a * v)[k] = \<Sum>j. a[j] * v[k - j]\<close>,
      of length \<open>len a + len v - 1\<close>.\<close>
  "convolve_full a v =
     map (\<lambda>k. \<Sum>j\<leftarrow>[0..<length a]. if j \<le> k \<and> k - j < length v then a ! j * v ! (k - j) else 0)
         [0..<length a + length v - 1]"

definition np_convolve :: "real list \<Rightarrow> real list \<Rightarrow> conv_mode \<Rightarrow> error + real list" where
  \<comment> \<open>\<open>np.convolve\<close>: empty operands raise; mode \<open>same\<close> is the centred part of the full
      convolution, of length \<open>max (len a) (len v)\<close>.\<close>
  "np_convolve a v mode =
     (if a = [] \<or> v = [] then Inl ValueError
      else case mode of
        Full \<Rightarrow> Inr (convolve_full a v)
      | Same \<Rightarrow> Inr (take (max (length a) (length v))
                       (drop ((min (length a) (length v) - 1) div 2) (convolve_full a v))))"

definition dft :: "complex list \<Rightarrow> complex list" where
  "dft xs = map (\<lambda>k. \<Sum>j\<leftarrow>[0..<length xs].
                     xs ! j * cis (- (2 * pi * real j * real k / real (length xs))))
                [0..<length xs]"

definition idft :: "complex list \<Rightarrow> complex list" where
  "idft ys = map (\<lambda>j. (\<Sum>k\<leftarrow>[0..<length ys].
                      ys ! k * cis (2 * pi * real j * real k / real (length ys)))
                     / of_nat (length ys))
                 [0..<length ys]"

definition np_fft :: "complex list \<Rightarrow> error + complex list" where
  \<comment> \<open>\<open>np.fft.fft\<close>: zero data points raise.\<close>
  "np_fft xs = (if xs = [] then Inl ValueError else Inr (dft xs))"

definition np_ifft :: "complex list \<Rightarrow> error + complex list" where
  "np_ifft ys = (if ys = [] then Inl ValueError else Inr (idft ys))"

function str_nat :: "nat \<Rightarrow> string" where
  "str_nat n = (if n < 10 then [''0123456789'' ! n]
                else str_nat (n div 10) @ [''0123456789'' ! (n mod 10)])"
  by pat_completeness auto
termination
  by (relation "measure id") auto

declare str_nat.simps [simp del]

definition str_int :: "int \<Rightarrow> string" where
  \<comment> \<open>Python's \<open>str\<close> of an integer, as an f-string renders it.\<close>
  "str_int i = (if i < 0 then CHR ''-'' # str_nat (nat (- i)) else str_nat (nat i))"

subsection \<open>Data: frames, the configuration and the detector\<close>

text \<open>
  A \<open>pd.DataFrame\<close> is its row index and its columns; every column is as long as the
  index (\<open>wf_frame\<close>). \<open>len(frame)\<close> is the number of rows, \<open>frame.shape[1]\<close> the number
  of columns, also when there are no rows.
\<close>

record DataFrame =
  index :: "int list"
  cols :: "real list list"

definition wf_frame :: "DataFrame \<Rightarrow> bool" where
  "wf_frame f = list_all (\<lambda>c. length c = length (index f)) (cols f)"

definition column :: "DataFrame \<Rightarrow> int option \<Rightarrow> error + real list" where
  \<comment> \<open>\<open>frame.values[:, i]\<close>\<close>
  "column f i = (case i of None \<Rightarrow> Inl NewAxis | Some j \<Rightarrow> py_index (cols f) j)"

definition pd_DataFrame :: "real list \<Rightarrow> int list \<Rightarrow> error + DataFrame" where
  \<comment> \<open>\<open>pd.DataFrame(data, index=idx)\<close> on 1-D data: one column; the constructor raises
      when the data and the index differ in length.\<close>
  "pd_DataFrame data idx =
     (if length data = length idx then Inr \<lparr>index = idx, cols = [data]\<rparr> else Inl ValueError)"

record SpectralResidualConfig =
  local_wind_sz :: int
  q :: int
  estimated_points :: int
  predicting_points :: int
  target_seq_index :: "int option"

definition default_config :: SpectralResidualConfig where
  "default_config = \<lparr>local_wind_sz = 21, q = 3, estimated_points = 5,
                     predicting_points = 5, target_seq_index = None\<rparr>"

record SpectralResidual =
  config :: SpectralResidualConfig
  q_conv_map :: "real list"
  self_local_wind_sz :: int
  local_conv_map :: "real list"

definition init :: "SpectralResidualConfig \<Rightarrow> error + SpectralResidual" where
  \<comment> \<open>\<open>SpectralResidual.__init__\<close> (lines 79-84)\<close>
  "init cfg =
     bind (np_ones (q cfg)) (\<lambda>ones_q.
     bind (np_ones (local_wind_sz cfg)) (\<lambda>ones_w.
       Inr \<lparr>config = cfg,
            q_conv_map = map (\<lambda>x. x / real_of_int (q cfg)) ones_q,
            self_local_wind_sz = local_wind_sz cfg,
            local_conv_map = ones_w\<rparr>))"

subsection \<open>The scoring pipeline\<close>

definition get_saliency_map :: "SpectralResidual \<Rightarrow> real list \<Rightarrow> error + real list" where
  \<comment> \<open>\<open>_get_saliency_map\<close> (lines 98-105)\<close>
  "get_saliency_map self values =
     bind (np_fft (map complex_of_real values)) (\<lambda>transform.
     let log_amps = map (\<lambda>z. ln (cmod z)) transform;
         phases = map Arg transform
     in
     bind (np_convolve log_amps (q_conv_map self) Same) (\<lambda>avg_log_amps.
     bind (np_broadcast (-) log_amps avg_log_amps) (\<lambda>residuals.
     bind (np_broadcast (+) (map complex_of_real residuals)
                            (map (\<lambda>p. \<i> * complex_of_real p) phases)) (\<lambda>z.
     bind (np_ifft (map exp z)) (\<lambda>r.
       Inr (map cmod r))))))"

definition compute_grad :: "SpectralResidual \<Rightarrow> real list \<Rightarrow> error + real" where
  \<comment> \<open>\<open>_compute_grad\<close> (lines 107-113)\<close>
  "compute_grad self values =
     (let m = min (predicting_points (config self)) (int (length values) - 1) in
      bind (py_index values (- 1)) (\<lambda>x_n.
      let a = map (\<lambda>v. x_n - v) (py_slice values (- m - 1) (- 1));
          b = rev (np_arange 1 (m + 1))
      in
      bind (np_broadcast (/) a (map real_of_int b)) (\<lambda>averages.
        Inr (np_average averages))))"

definition pad :: "SpectralResidual \<Rightarrow> real list \<Rightarrow> error + real list" where
  \<comment> \<open>\<open>_pad\<close> (lines 115-119)\<close>
  "pad self values =
     bind (compute_grad self values) (\<lambda>grad.
     let m = min (predicting_points (config self)) (int (length values) - 1) in
     bind (py_index values (- m)) (\<lambda>v.
     let item = v + grad * real_of_int m in
       np_pad values (estimated_points (config self)) item))"

text \<open>
  \<open>_get_anomaly_score\<close> (lines 121-139), stage by stage: the working array (lines 122-126),
  padding and the trimmed saliency map (lines 128-131), the trailing local average
  (lines 133-136), the score array (line 137) and the returned frame (line 139).
\<close>

definition working_values :: "SpectralResidual \<Rightarrow> DataFrame \<Rightarrow> DataFrame option \<Rightarrow> error + real list" where
  "working_values self time_series time_series_prev =
     (let i = target_seq_index (config self) in
      case time_series_prev of
        None \<Rightarrow> column time_series i
      | Some prev \<Rightarrow>
          bind (column prev i) (\<lambda>p.
          bind (column time_series i) (\<lambda>c. Inr (p @ c))))"

definition padded_values :: "SpectralResidual \<Rightarrow> real list \<Rightarrow> error + real list" where
  "padded_values self values =
     (if estimated_points (config self) > 0 then pad self values else Inr values)"

definition trimmed_saliency :: "SpectralResidual \<Rightarrow> real list \<Rightarrow> error + real list" where
  "trimmed_saliency self values =
     bind (padded_values self values) (\<lambda>padded.
     bind (get_saliency_map self padded) (\<lambda>saliency_map.
       Inr (if estimated_points (config self) > 0
            then py_slice_to saliency_map (- estimated_points (config self))
            else saliency_map)))"

definition local_average :: "SpectralResidual \<Rightarrow> real list \<Rightarrow> nat \<Rightarrow> error + real list" where
  \<comment> \<open>The second argument is the trimmed saliency map, the third \<open>values.shape[0]\<close>.\<close>
  "local_average self saliency_map n =
     bind (np_convolve saliency_map (local_conv_map self) Full) (\<lambda>full.
     let average_values = py_slice_to full (int n);
         a = np_arange 1 (int (length average_values) + 1);
         a = map (\<lambda>x. if x > self_local_wind_sz self then self_local_wind_sz self else x) a
     in
     bind (np_broadcast (/) average_values (map real_of_int a)) (\<lambda>d.
       Inr (py_slice_to d (- 1))))"

definition score_assembly :: "real list \<Rightarrow> real list \<Rightarrow> error + real list" where
  "score_assembly saliency_map average_values =
     bind (np_broadcast (-) (py_slice_from saliency_map 1) average_values) (\<lambda>num.
     bind (np_broadcast (/) num (map (\<lambda>x. x + 1 / 10 ^ 8) average_values)) (\<lambda>quot.
       Inr (0 # quot)))"

definition get_anomaly_score :: "SpectralResidual \<Rightarrow> DataFrame \<Rightarrow> DataFrame option \<Rightarrow> error + DataFrame" where
  "get_anomaly_score self time_series time_series_prev =
     bind (working_values self time_series time_series_prev) (\<lambda>values.
     bind (trimmed_saliency self values) (\<lambda>saliency_map.
     bind (local_average self saliency_map (length values)) (\<lambda>average_values.
     bind (score_assembly saliency_map average_values) (\<lambda>output_values.
       pd_DataFrame (py_slice_from output_values (- int (length (index time_series))))
                    (index time_series)))))"

definition missing_target_msg :: "nat \<Rightarrow> string" where
  "missing_target_msg dm =
     ''Attempting to use the SR algorithm on a '' @ str_nat dm @ ''-variable '' @
     ''time series, but didn'' @ [CHR 0x27] @ ''t specify a `target_seq_index` '' @
     ''indicating which univariate is the target.''"

definition out_of_range_msg :: "nat \<Rightarrow> int \<Rightarrow> string" where
  "out_of_range_msg dm t =
     ''Expected `target_seq_index` to be between 0 and '' @ str_nat dm @ '' '' @
     ''(the dimension of the transformed data), but got '' @ str_int t"

definition check_and_score :: "SpectralResidual \<Rightarrow> nat \<Rightarrow> DataFrame \<Rightarrow> SpectralResidual \<times> (error + DataFrame)" where
  \<comment> \<open>The assertion of lines 151-154 and the return of line 156. The index is set when the
      assertion is reached: either line 144 has just written it, or line 145 found it
      (comparing \<open>None\<close> with an integer would raise a \<open>TypeError\<close>).\<close>
  "check_and_score self dm train_data =
     (case target_seq_index (config self) of
        None \<Rightarrow> (self, Inl TypeError)
      | Some t \<Rightarrow>
          if 0 \<le> t \<and> t < int dm then (self, get_anomaly_score self train_data None)
          else (self, Inl (AssertionError (out_of_range_msg dm t))))"

definition train :: "SpectralResidual \<Rightarrow> DataFrame \<Rightarrow> SpectralResidual \<times> (error + DataFrame)" where
  \<comment> \<open>\<open>_train\<close> (lines 141-156): the detector is returned with its configuration as the
      call leaves it, also when the call raises.\<close>
  "train self train_data =
     (let dm = length (cols train_data) in
      if dm = 1
      then check_and_score (self\<lparr>config := (config self)\<lparr>target_seq_index := Some 0\<rparr>\<rparr>) dm train_data
      else if target_seq_index (config self) = None
      then (self, Inl (RuntimeError (missing_target_msg dm)))
      else check_and_score self dm train_data)"

subsection \<open>The stages as the specification words them\<close>

definition slopes_spec :: "nat \<Rightarrow> real list \<Rightarrow> real list" where
  \<comment> \<open>The per-step slopes to the final value from the points \<open>m, m - 1, ..., 1\<close> steps
      before it.\<close>
  "slopes_spec m values =
     map (\<lambda>d. (last values - values ! (length values - 1 - d)) / real d) (rev [1..<Suc m])"

definition gradient_spec :: "nat \<Rightarrow> real list \<Rightarrow> real" where
  "gradient_spec m values = sum_list (slopes_spec m values) / real m"

definition local_average_spec :: "nat \<Rightarrow> real list \<Rightarrow> real list" where
  \<comment> \<open>Entry \<open>k\<close> (1-based) of the full convolution with \<open>w\<close> ones, divided by
      \<open>min k w\<close>, for the first \<open>N\<close> entries; the last one dropped.\<close>
  "local_average_spec w s =
     butlast (map (\<lambda>k. convolve_full s (replicate w 1) ! k / real (min (Suc k) w))
                  [0..<length s])"

definition same_moving_average :: "nat \<Rightarrow> real list \<Rightarrow> real list" where
  \<comment> \<open>The centred moving average with a uniform kernel \<open>1/w\<close> of width \<open>w\<close>, as long as
      its input: entry \<open>k\<close> covers the positions \<open>k + (w - 1) div 2 - (w - 1)\<close> to
      \<open>k + (w - 1) div 2\<close>; positions beyond the ends contribute nothing.\<close>
  "same_moving_average w xs =
     map (\<lambda>k. \<Sum>j\<leftarrow>[0..<length xs].
                 if j \<le> k + (w - 1) div 2 \<and> k + (w - 1) div 2 < j + w
                 then xs ! j * (1 / real w) else 0)
         [0..<length xs]"

definition saliency_spec :: "nat \<Rightarrow> real list \<Rightarrow> real list" where
  \<comment> \<open>The saliency map: the magnitude of the inverse transform of
      \<open>exp (residual + \<i> * phase)\<close>.\<close>
  "saliency_spec w values =
     (let spectrum = dft (map complex_of_real values);
          log_amplitude = map (\<lambda>z. ln (cmod z)) spectrum;
          phase = map Arg spectrum;
          residual = map2 (-) log_amplitude (same_moving_average w log_amplitude)
      in map cmod (idft (map2 (\<lambda>r p. exp (complex_of_real r + \<i> * complex_of_real p))
                              residual phase)))"

definition score_formula :: "real list \<Rightarrow> real list \<Rightarrow> real list" where
  "score_formula s a = 0 # map2 (\<lambda>x y. (x - y) / (y + 1 / 10 ^ 8)) (drop 1 s) a"

definition history_len :: "DataFrame option \<Rightarrow> nat" where
  "history_len prev = (case prev of None \<Rightarrow> 0 | Some p \<Rightarrow> length (index p))"

definition history_ok :: "int \<Rightarrow> DataFrame option \<Rightarrow> bool" where
  "history_ok i prev =
     (case prev of None \<Rightarrow> True | Some p \<Rightarrow> wf_frame p \<and> i < int (length (cols p)))"

definition config_error :: "error + 'a \<Rightarrow> bool" where
  \<comment> \<open>The two configuration errors of \<open>_train\<close>: the \<open>RuntimeError\<close> of line 146 and the
      failed assertion of line 151.\<close>
  "config_error r =
     (case r of
        Inl (RuntimeError _) \<Rightarrow> True
      | Inl (AssertionError _) \<Rightarrow> True
      | _ \<Rightarrow> False)"

definition with_target :: "SpectralResidual \<Rightarrow> int option \<Rightarrow> SpectralResidual" where
  \<comment> \<open>The detector with \<open>config.target_seq_index\<close> set to the given value.\<close>
  "with_target self t = self\<lparr>config := (config self)\<lparr>target_seq_index := t\<rparr>\<rparr>"

definition valid_training :: "SpectralResidual \<Rightarrow> DataFrame \<Rightarrow> bool" where
  \<comment> \<open>A constructed detector with positive windows, and a training series with at least
      one row and, padding included, at least \<open>q\<close> rows.\<close>
  "valid_training self f =
     (init (config self) = Inr self \<and> 1 \<le> q (config self) \<and> 1 \<le> local_wind_sz (config self)
      \<and> 0 \<le> predicting_points (config self) \<and> wf_frame f \<and> 1 \<le> length (index f)
      \<and> q (config self) \<le> int (length (index f)) + max 0 (estimated_points (config self)))"

subsection \<open>Concrete detectors and frames\<close>

definition detector :: "SpectralResidualConfig \<Rightarrow> SpectralResidual" where
  \<comment> \<open>What \<open>init\<close> builds from a configuration of non-negative window sizes.\<close>
  "detector cfg =
     \<lparr>config = cfg,
      q_conv_map = replicate (nat (q cfg)) (1 / real_of_int (q cfg)),
      self_local_wind_sz = local_wind_sz cfg,
      local_conv_map = replicate (nat (local_wind_sz cfg)) 1\<rparr>"

definition series50 :: DataFrame where
  "series50 = \<lparr>index = [50..99], cols = [map real_of_int [50..99]]\<rparr>"

definition history50 :: DataFrame where
  "history50 = \<lparr>index = [0..49], cols = [map real_of_int [0..49]]\<rparr>"

definition two_channels :: DataFrame where
  "two_channels = \<lparr>index = [0, 1], cols = [[1, 3], [2, 5]]\<rparr>"

definition series2 :: DataFrame where
  "series2 = \<lparr>index = [0, 1], cols = [[1, 3]]\<rparr>"

definition series3 :: DataFrame where
  "series3 = \<lparr>index = [0, 1, 2], cols = [[1, 3, 2]]\<rparr>"

definition three_channels :: DataFrame where
  "three_channels = \<lparr>index = [0, 1, 2], cols = [[1, 3, 2], [0, 1, 0], [5, 4, 6]]\<rparr>"

definition history1 :: DataFrame where
  "history1 = \<lparr>index = [0], cols = [[1]]\<rparr>"

definition series1 :: DataFrame where
  "series1 = \<lparr>index = [1], cols = [[3]]\<rparr>"

section \<open>Properties\<close>

subsection \<open>Results and primitives\<close>

lemma bind_Inr [simp]: "bind (Inr x) f = f x"
  by (simp add: bind_def)

lemma bind_Inl [simp]: "bind (Inl e) f = Inl e"
  by (simp add: bind_def)

lemma bind_eq_Inr: "bind r f = Inr y \<longleftrightarrow> (\<exists>v. r = Inr v \<and> f v = Inr y)"
  by (cases r) simp_all

lemma length_convolve_full [simp]: "length (convolve_full a v) = length a + length v - 1"
  by (simp add: convolve_full_def)

lemma np_broadcast_same: "length xs = length ys \<Longrightarrow> np_broadcast f xs ys = Inr (map2 f xs ys)"
  by (simp add: np_broadcast_def)

lemma length_dft [simp]: "length (dft xs) = length xs"
  by (simp add: dft_def)

lemma length_idft [simp]: "length (idft xs) = length xs"
  by (simp add: idft_def)

lemma dft_eq_Nil [simp]: "dft xs = [] \<longleftrightarrow> xs = []"
  using length_dft[of xs] by (metis length_0_conv)

lemma np_convolve_same_length:
  assumes "a \<noteq> []" "v \<noteq> []" "length v \<le> length a"
  shows "\<exists>r. np_convolve a v Same = Inr r \<and> length r = length a"
proof -
  have "0 < length v" using assms(2) by simp
  then have "(length v - 1) div 2 \<le> length v - 1" by simp
  then have "length a \<le> length a + length v - 1 - (length v - 1) div 2"
    using \<open>0 < length v\<close> by linarith
  then show ?thesis
    using assms by (simp add: np_convolve_def min_absorb2 max_absorb1)
qed

lemma get_saliency_map_length:
  assumes "values \<noteq> []" "q_conv_map self \<noteq> []" "length (q_conv_map self) \<le> length values"
  shows "\<exists>s. get_saliency_map self values = Inr s \<and> length s = length values"
proof -
  let ?t = "dft (map complex_of_real values)"
  let ?la = "map (\<lambda>z. ln (cmod z)) ?t"
  have la: "?la \<noteq> []" "length (q_conv_map self) \<le> length ?la" using assms by simp_all
  obtain avg where avg: "np_convolve ?la (q_conv_map self) Same = Inr avg" "length avg = length ?la"
    using np_convolve_same_length[OF la(1) assms(2) la(2)] by blast
  have "avg \<noteq> []" using avg(2) assms(1) by auto
  then show ?thesis
    using assms(1) avg
    by (simp add: get_saliency_map_def np_fft_def Let_def np_broadcast_same np_ifft_def)
qed

lemma py_index_last: "xs \<noteq> [] \<Longrightarrow> py_index xs (- 1) = Inr (last xs)"
  by (cases xs rule: rev_cases) (simp_all add: py_index_def Let_def nat_add_distrib)

lemma grad_slice:
  assumes "m \<le> length values - 1" "values \<noteq> []"
  shows "py_slice values (- int m - 1) (- 1) = drop (length values - 1 - m) (take (length values - 1) values)"
proof -
  have 1: "slice_bound (length values) (- 1) = length values - 1"
    by (simp add: slice_bound_def) 
  have 2: "slice_bound (length values) (- int m - 1) = length values - 1 - m"
    using assms by (cases "values") (auto simp add: slice_bound_def max_def)
  show ?thesis by (simp add: py_slice_def 1 2)
qed

lemma rev_arange_nth:
  assumes "j < m"
  shows "rev (np_arange 1 (int m + 1)) ! j = int m - int j"
  using assms by (simp add: np_arange_def rev_nth)

lemma compute_grad_value:
  assumes "2 \<le> length values" "1 \<le> predicting_points (config self)"
  defines "m \<equiv> nat (min (predicting_points (config self)) (int (length values) - 1))"
  shows "compute_grad self values = Inr (gradient_spec m values)"
proof -
  let ?n = "length values"
  have ne: "values \<noteq> []" using assms(1) by auto
  have m1: "1 \<le> m" "m \<le> ?n - 1" using assms by (auto simp: m_def)
  have mi: "min (predicting_points (config self)) (int ?n - 1) = int m"
    using assms by (auto simp: m_def)
  let ?a = "map (\<lambda>v. last values - v) (drop (?n - 1 - m) (take (?n - 1) values))"
  let ?b = "map real_of_int (rev (np_arange 1 (int m + 1)))"
  have la: "length ?a = m" using m1 by simp
  have lb: "length ?b = m" by (simp add: np_arange_def)
  have eq: "map2 (/) ?a ?b = slopes_spec m values"
  proof (rule nth_equalityI)
    show "length (map2 (/) ?a ?b) = length (slopes_spec m values)"
      using la lb by (simp add: slopes_spec_def)
  next
    fix i assume "i < length (map2 (/) ?a ?b)"
    then have i: "i < m" using la lb by simp
    have a: "?a ! i = last values - values ! (?n - 1 - m + i)"
      using i m1 by simp
    have b: "?b ! i = real (m - i)"
      using i rev_arange_nth[OF i] by (simp add: np_arange_def of_nat_diff)
    have s: "rev [1..<Suc m] ! i = m - i"
      using i by (simp add: rev_nth del: upt_Suc)
    have idx: "?n - 1 - (m - i) = ?n - 1 - m + i" using i m1 by simp
    have "map2 (/) ?a ?b ! i = ?a ! i / ?b ! i" using i la lb by simp
    also have "\<dots> = (last values - values ! (?n - 1 - m + i)) / real (m - i)"
      by (simp only: a b)
    also have "\<dots> = slopes_spec m values ! i"
    proof -
      have "i < length (rev [1..<Suc m])" using i by simp
      then have "slopes_spec m values ! i =
            (last values - values ! (?n - 1 - rev [1..<Suc m] ! i)) / real (rev [1..<Suc m] ! i)"
        unfolding slopes_spec_def by (rule nth_map)
      then show ?thesis by (simp only: s idx)
    qed
    finally show "map2 (/) ?a ?b ! i = slopes_spec m values ! i" .
  qed
  have bc: "np_broadcast (/) ?a ?b = Inr (slopes_spec m values)"
    using np_broadcast_same[of ?a ?b "(/)"] la lb eq by simp
  have len: "length (slopes_spec m values) = m" by (simp add: slopes_spec_def)
  show ?thesis
    unfolding compute_grad_def Let_def mi
    using bc len
    by (simp add: py_index_last[OF ne] grad_slice[OF m1(2) ne] np_average_def gradient_spec_def)
qed

lemma compute_grad_ok:
  assumes "values \<noteq> []" "0 \<le> predicting_points (config self)"
  shows "\<exists>g. compute_grad self values = Inr g"
proof -
  let ?n = "length values"
  define m where "m = nat (min (predicting_points (config self)) (int ?n - 1))"
  have n1: "1 \<le> ?n" using assms(1) by (simp add: Suc_leI)
  have m1: "m \<le> ?n - 1" using assms n1 by (auto simp: m_def)
  have mi: "min (predicting_points (config self)) (int ?n - 1) = int m"
    using assms n1 by (auto simp: m_def)
  let ?a = "map (\<lambda>v. last values - v) (drop (?n - 1 - m) (take (?n - 1) values))"
  let ?b = "map real_of_int (rev (np_arange 1 (int m + 1)))"
  have la: "length ?a = m" using m1 by simp
  have lb: "length ?b = m" by (simp add: np_arange_def)
  have bc: "np_broadcast (/) ?a ?b = Inr (map2 (/) ?a ?b)"
    using np_broadcast_same[of ?a ?b "(/)"] la lb by simp
  show ?thesis
    unfolding compute_grad_def Let_def mi
    using bc
    by (simp add: py_index_last[OF assms(1)] grad_slice[OF m1 assms(1)])
qed

lemma pad_ok:
  assumes "values \<noteq> []" "0 \<le> predicting_points (config self)" "0 \<le> estimated_points (config self)"
  shows "\<exists>item. pad self values = Inr (values @ replicate (nat (estimated_points (config self))) item)"
proof -
  let ?n = "length values"
  define m where "m = nat (min (predicting_points (config self)) (int ?n - 1))"
  have n1: "1 \<le> ?n" using assms(1) by (simp add: Suc_leI)
  have m1: "m \<le> ?n - 1" using assms n1 by (auto simp: m_def)
  have mi: "min (predicting_points (config self)) (int ?n - 1) = int m"
    using assms n1 by (auto simp: m_def)
  obtain g where g: "compute_grad self values = Inr g"
    using compute_grad_ok[OF assms(1,2)] by blast
  have "\<exists>v. py_index values (- int m) = Inr v"
    using m1 n1 by (auto simp: py_index_def Let_def)
  then obtain v where v: "py_index values (- int m) = Inr v" by blast
  show ?thesis
    unfolding pad_def Let_def mi using assms(3) by (simp add: g v np_pad_def)
qed

lemma pad_value:
  assumes "2 \<le> length values" "1 \<le> predicting_points (config self)"
    "0 \<le> estimated_points (config self)"
  defines "m \<equiv> nat (min (predicting_points (config self)) (int (length values) - 1))"
  shows "pad self values =
         Inr (values @ replicate (nat (estimated_points (config self)))
                (values ! (length values - m) + gradient_spec m values * real m))"
proof -
  let ?n = "length values"
  have m1: "1 \<le> m" "m \<le> ?n - 1" using assms by (auto simp: m_def)
  have mi: "min (predicting_points (config self)) (int ?n - 1) = int m"
    using assms by (auto simp: m_def)
  have g: "compute_grad self values = Inr (gradient_spec m values)"
    using compute_grad_value[OF assms(1,2)] by (simp add: m_def)
  have "nat (int ?n - int m) = ?n - m" using m1 by simp
  then have v: "py_index values (- int m) = Inr (values ! (?n - m))"
    using m1 assms(1) by (auto simp: py_index_def Let_def)
  show ?thesis
    unfolding pad_def Let_def mi using assms(3) by (simp add: g v np_pad_def)
qed

lemma trimmed_saliency_ok:
  assumes "values \<noteq> []" "0 \<le> predicting_points (config self)"
    "q_conv_map self \<noteq> []"
    "int (length (q_conv_map self)) \<le> int (length values) + max 0 (estimated_points (config self))"
  shows "\<exists>s. trimmed_saliency self values = Inr s \<and> length s = length values"
proof (cases "estimated_points (config self) > 0")
  case True
  let ?e = "nat (estimated_points (config self))"
  obtain item where p: "pad self values = Inr (values @ replicate ?e item)"
    using pad_ok[OF assms(1,2)] True by force
  let ?p = "values @ replicate ?e item"
  have "length (q_conv_map self) \<le> length ?p" using assms(4) True by simp
  moreover have "?p \<noteq> []" using assms(1) by simp
  ultimately obtain s where s: "get_saliency_map self ?p = Inr s" "length s = length ?p"
    using get_saliency_map_length[OF _ assms(3)] by blast
  have "slice_bound (length s) (- estimated_points (config self)) = length values"
    using True s(2) by (simp add: slice_bound_def)
  then show ?thesis
    using True by (simp add: trimmed_saliency_def padded_values_def p s py_slice_to_def)
next
  case False
  then have "length (q_conv_map self) \<le> length values" using assms(4) by simp
  then obtain s where s: "get_saliency_map self values = Inr s" "length s = length values"
    using get_saliency_map_length[OF assms(1,3)] by blast
  then show ?thesis
    using False by (simp add: trimmed_saliency_def padded_values_def)
qed

lemma ramp_nth:
  assumes "k < n"
  shows "map (\<lambda>x. if x > w then w else x) (np_arange 1 (int n + 1)) ! k = min (int (Suc k)) w"
  using assms by (auto simp add: np_arange_def)

lemma py_slice_to_minus1: "py_slice_to xs (- 1) = butlast xs"
proof -
  have "slice_bound (length xs) (- 1) = length xs - 1"
    by (cases xs) (simp_all add: slice_bound_def)
  then show ?thesis by (simp add: py_slice_to_def butlast_conv_take)
qed

lemma local_average_value:
  assumes s: "s \<noteq> []" and w: "1 \<le> w"
    and lcm: "local_conv_map self = replicate w 1"
    and lws: "self_local_wind_sz self = int w"
  shows "local_average self s (length s) = Inr (local_average_spec w s)"
proof -
  let ?N = "length s"
  let ?full = "convolve_full s (replicate w 1)"
  have cv: "np_convolve s (local_conv_map self) Full = Inr ?full"
    using s w by (auto simp add: np_convolve_def lcm)
  have lf: "?N \<le> length ?full" using w by simp
  have av: "py_slice_to ?full (int ?N) = take ?N ?full"
    using lf by (simp add: py_slice_to_def slice_bound_def)
  have lav: "length (take ?N ?full) = ?N" using lf by simp
  let ?a = "map (\<lambda>x. if x > int w then int w else x) (np_arange 1 (int ?N + 1))"
  have la: "length ?a = ?N" by (simp add: np_arange_def)
  let ?d = "map2 (/) (take ?N ?full) (map real_of_int ?a)"
  have bc: "np_broadcast (/) (take ?N ?full) (map real_of_int ?a) = Inr ?d"
    using np_broadcast_same[of "take ?N ?full" "map real_of_int ?a" "(/)"] lav la by simp
  have ld: "length ?d = ?N" using lav la by simp
  have d: "?d = map (\<lambda>k. ?full ! k / real (min (Suc k) w)) [0..<?N]"
  proof (rule nth_equalityI)
    show "length ?d = length (map (\<lambda>k. ?full ! k / real (min (Suc k) w)) [0..<?N])"
      using ld by simp
  next
    fix k assume "k < length ?d"
    then have k: "k < ?N" using ld by simp
    have "?a ! k = min (int (Suc k)) (int w)" by (rule ramp_nth[OF k])
    then have a: "real_of_int (?a ! k) = real (min (Suc k) w)"
      by (simp add: min_def)
    have "?d ! k = take ?N ?full ! k / real_of_int (?a ! k)"
      using k lav la by simp
    also have "\<dots> = ?full ! k / real (min (Suc k) w)"
      using k by (simp only: a nth_take)
    finally show "?d ! k = map (\<lambda>k. ?full ! k / real (min (Suc k) w)) [0..<?N] ! k"
      using k by simp
  qed
  have sl: "py_slice_to ?d (- 1) = butlast ?d"
    by (rule py_slice_to_minus1)
  show ?thesis
    unfolding local_average_def Let_def cv
    by (simp only: bind_Inr av lav lws bc d py_slice_to_minus1 local_average_spec_def)
qed

lemma length_local_average_spec [simp]: "length (local_average_spec w s) = length s - 1"
  by (simp add: local_average_spec_def)

lemma convolve_ones_nth:
  assumes "k < length s" "1 \<le> w"
  shows "convolve_full s (replicate w 1) ! k = (\<Sum>j = Suc k - w..k. s ! j)"
proof -
  let ?N = "length s"
  have kk: "k < ?N + w - 1" using assms by simp
  have ix: "[0..<?N + length (replicate w (1::real)) - 1] ! k = k" using kk by simp
  have "convolve_full s (replicate w 1) ! k =
        (\<Sum>j\<leftarrow>[0..<?N]. if j \<le> ([0..<?N + length (replicate w (1::real)) - 1] ! k)
                             \<and> ([0..<?N + length (replicate w (1::real)) - 1] ! k) - j < length (replicate w (1::real))
          then s ! j * replicate w 1 ! (([0..<?N + length (replicate w (1::real)) - 1] ! k) - j) else 0)"
    unfolding convolve_full_def using kk by (intro nth_map) simp
  also have "\<dots> =
        (\<Sum>j\<leftarrow>[0..<?N]. if j \<le> k \<and> k - j < w then s ! j * replicate w 1 ! (k - j) else 0)"
    unfolding ix by simp
  also have "\<dots> = (\<Sum>j\<leftarrow>[0..<?N]. if j \<le> k \<and> k - j < w then s ! j else 0)"
    by (rule arg_cong[where f = sum_list], rule map_cong) auto
  also have "\<dots> = (\<Sum>j\<in>{0..<?N}. if j \<le> k \<and> k - j < w then s ! j else 0)"
    by (simp add: sum_list_distinct_conv_sum_set)
  also have "\<dots> = (\<Sum>j\<in>{j \<in> {0..<?N}. j \<le> k \<and> k - j < w}. s ! j)"
    by (rule sum.inter_filter[symmetric]) simp
  also have "{j \<in> {0..<?N}. j \<le> k \<and> k - j < w} = {Suc k - w..k}"
    using assms by auto
  finally show ?thesis .
qed

lemma local_average_spec_nth:
  assumes "k < length s - 1" "1 \<le> w"
  shows "local_average_spec w s ! k = (\<Sum>j = Suc k - w..k. s ! j) / real (min (Suc k) w)"
proof -
  have k: "k < length s" using assms by simp
  have "local_average_spec w s ! k =
        map (\<lambda>k. convolve_full s (replicate w 1) ! k / real (min (Suc k) w)) [0..<length s] ! k"
    unfolding local_average_spec_def using assms by (simp add: nth_butlast)
  then show ?thesis using k convolve_ones_nth[OF k assms(2)] by simp
qed

lemma score_assembly_value:
  assumes "length a = length s - 1" "s \<noteq> []"
  shows "score_assembly s a =
         Inr (0 # map2 (\<lambda>x y. (x - y) / (y + 1 / 10 ^ 8)) (drop 1 s) a)"
proof -
  have sl: "py_slice_from s 1 = drop 1 s"
    using assms(2) by (cases s) (simp_all add: py_slice_from_def slice_bound_def)
  have l: "length (drop 1 s) = length a" using assms by simp
  have 1: "np_broadcast (-) (drop 1 s) a = Inr (map2 (-) (drop 1 s) a)"
    using np_broadcast_same[OF l] by simp
  have 2: "np_broadcast (/) (map2 (-) (drop 1 s) a) (map (\<lambda>x. x + 1 / 10 ^ 8) a)
           = Inr (map2 (/) (map2 (-) (drop 1 s) a) (map (\<lambda>x. x + 1 / 10 ^ 8) a))"
    using l by (intro np_broadcast_same) simp
  have 3: "map2 (/) (map2 (-) (drop 1 s) a) (map (\<lambda>x. x + 1 / 10 ^ 8) a)
           = map2 (\<lambda>x y. (x - y) / (y + 1 / 10 ^ 8)) (drop 1 s) a"
    using l by (intro nth_equalityI) simp_all
  show ?thesis
    unfolding score_assembly_def sl 1 bind_Inr 2 3 ..
qed

lemma init_fields:
  assumes "init (config self) = Inr self"
  shows "q_conv_map self = replicate (nat (q (config self))) (1 / real_of_int (q (config self)))"
    and "local_conv_map self = replicate (nat (local_wind_sz (config self))) 1"
    and "self_local_wind_sz self = local_wind_sz (config self)"
proof -
  have nn: "\<not> q (config self) < 0" "\<not> local_wind_sz (config self) < 0"
    using assms by (auto simp: init_def np_ones_def split: if_splits)
  have "self = \<lparr>config = config self,
            q_conv_map = map (\<lambda>x. x / real_of_int (q (config self))) (replicate (nat (q (config self))) 1),
            self_local_wind_sz = local_wind_sz (config self),
            local_conv_map = replicate (nat (local_wind_sz (config self))) 1\<rparr>"
    using assms nn by (simp add: init_def np_ones_def)
  then have "q_conv_map self = map (\<lambda>x. x / real_of_int (q (config self))) (replicate (nat (q (config self))) 1)"
    and 2: "local_conv_map self = replicate (nat (local_wind_sz (config self))) 1"
    and 3: "self_local_wind_sz self = local_wind_sz (config self)"
    by (metis SpectralResidual.select_convs(2), metis SpectralResidual.select_convs(4),
        metis SpectralResidual.select_convs(3))
  then show "q_conv_map self = replicate (nat (q (config self))) (1 / real_of_int (q (config self)))"
    by simp
  show "local_conv_map self = replicate (nat (local_wind_sz (config self))) 1" by (rule 2)
  show "self_local_wind_sz self = local_wind_sz (config self)" by (rule 3)
qed

lemma column_ok:
  assumes "wf_frame f" "0 \<le> i" "i < int (length (cols f))"
  shows "column f (Some i) = Inr (cols f ! nat i)" "length (cols f ! nat i) = length (index f)"
proof -
  show "column f (Some i) = Inr (cols f ! nat i)"
    using assms by (simp add: column_def py_index_def Let_def)
  have "nat i < length (cols f)" using assms by simp
  then show "length (cols f ! nat i) = length (index f)"
    using assms(1) by (simp add: wf_frame_def list_all_length)
qed

lemma working_values_ok:
  assumes "target_seq_index (config self) = Some i" "0 \<le> i" "i < int (length (cols ts))"
    "wf_frame ts" "history_ok i prev"
  shows "\<exists>values. working_values self ts prev = Inr values \<and>
           length values = history_len prev + length (index ts) \<and>
           drop (history_len prev) values = cols ts ! nat i"
proof (cases prev)
  case None
  then show ?thesis
    using assms column_ok[OF assms(4,2,3)] by (simp add: working_values_def history_len_def)
next
  case (Some p)
  then have p: "wf_frame p" "i < int (length (cols p))" using assms(5) by (simp_all add: history_ok_def)
  show ?thesis
    using Some assms(1) column_ok[OF assms(4,2,3)] column_ok[OF p(1) assms(2) p(2)]
    by (simp add: working_values_def history_len_def)
qed

lemma get_anomaly_score_char:
  assumes built: "init (config self) = Inr self"
    and cfg: "1 \<le> q (config self)" "1 \<le> local_wind_sz (config self)"
      "0 \<le> predicting_points (config self)"
    and tgt: "target_seq_index (config self) = Some i" "0 \<le> i" "i < int (length (cols ts))"
    and frames: "wf_frame ts" "history_ok i prev" "1 \<le> length (index ts)"
    and long: "q (config self) \<le> int (history_len prev + length (index ts))
                 + max 0 (estimated_points (config self))"
  shows "\<exists>values s. working_values self ts prev = Inr values
           \<and> length values = history_len prev + length (index ts)
           \<and> trimmed_saliency self values = Inr s \<and> length s = length values
           \<and> local_average self s (length values)
               = Inr (local_average_spec (nat (local_wind_sz (config self))) s)
           \<and> score_assembly s (local_average_spec (nat (local_wind_sz (config self))) s)
               = Inr (score_formula s (local_average_spec (nat (local_wind_sz (config self))) s))
           \<and> get_anomaly_score self ts prev =
               Inr \<lparr>index = index ts,
                    cols = [drop (history_len prev)
                              (score_formula s (local_average_spec (nat (local_wind_sz (config self))) s))]\<rparr>"
proof -
  let ?w = "nat (local_wind_sz (config self))"
  obtain vs where v: "working_values self ts prev = Inr vs"
      "length vs = history_len prev + length (index ts)"
    using working_values_ok[OF tgt frames(1,2)] by blast
  have vne: "vs \<noteq> []" using v(2) frames(3) by auto
  have qm: "q_conv_map self = replicate (nat (q (config self))) (1 / real_of_int (q (config self)))"
    and lm: "local_conv_map self = replicate ?w 1"
    and lw: "self_local_wind_sz self = int ?w"
    using init_fields[OF built] cfg by simp_all
  have qne: "q_conv_map self \<noteq> []" using qm cfg(1) by simp
  have ql: "int (length (q_conv_map self)) \<le> int (length vs) + max 0 (estimated_points (config self))"
    using qm cfg(1) long v(2) by simp
  obtain s where s: "trimmed_saliency self vs = Inr s" "length s = length vs"
    using trimmed_saliency_ok[OF vne cfg(3) qne ql] by blast
  have sne: "s \<noteq> []" using s(2) vne by auto
  have w1: "1 \<le> ?w" using cfg(2) by simp
  let ?a = "local_average_spec ?w s"
  have a: "local_average self s (length vs) = Inr ?a"
    using local_average_value[OF sne w1 lm lw] s(2) by simp
  have la: "length ?a = length s - 1" by simp
  have sc: "score_assembly s ?a = Inr (score_formula s ?a)"
    using score_assembly_value[OF la sne] by (simp add: score_formula_def)
  have lsc: "length (score_formula s ?a) = length vs"
    using s(2) vne by (cases s) (simp_all add: score_formula_def)
  have ine: "index ts \<noteq> []" using frames(3) by auto
  have "slice_bound (length vs) (- int (length (index ts))) = history_len prev"
    using ine v(2) by (simp add: slice_bound_def)
  then have sl: "py_slice_from (score_formula s ?a) (- int (length (index ts)))
        = drop (history_len prev) (score_formula s ?a)"
    by (simp add: py_slice_from_def lsc)
  have "length (drop (history_len prev) (score_formula s ?a)) = length (index ts)"
    using lsc v(2) by simp
  then have df: "pd_DataFrame (drop (history_len prev) (score_formula s ?a)) (index ts)
      = Inr \<lparr>index = index ts, cols = [drop (history_len prev) (score_formula s ?a)]\<rparr>"
    by (simp add: pd_DataFrame_def)
  have "get_anomaly_score self ts prev =
          Inr \<lparr>index = index ts, cols = [drop (history_len prev) (score_formula s ?a)]\<rparr>"
    unfolding get_anomaly_score_def v(1) bind_Inr s(1) a sc sl df ..
  then show ?thesis using v s a sc by blast
qed

subsection \<open>Concrete inputs\<close>

lemma init_detector:
  assumes "0 \<le> q cfg" "0 \<le> local_wind_sz cfg"
  shows "init cfg = Inr (detector cfg)"
  using assms by (simp add: init_def np_ones_def detector_def)

lemma config_detector [simp]: "config (detector cfg) = cfg"
  by (simp add: detector_def)

lemma series50_facts:
  "wf_frame series50" "length (index series50) = 50" "length (cols series50) = 1"
  by (simp_all add: series50_def wf_frame_def)

lemma history50_facts:
  "wf_frame history50" "length (index history50) = 50" "length (cols history50) = 1"
  by (simp_all add: history50_def wf_frame_def)

lemma score_formula_nth:
  assumes "length a = length s - 1" "1 \<le> k" "k < length s"
  shows "score_formula s a ! k = (s ! k - a ! (k - 1)) / (a ! (k - 1) + 1 / 10 ^ 8)"
proof -
  obtain j where j: "k = Suc j" using assms(2) by (cases k) auto
  have "j < length a" using assms j by simp
  then show ?thesis using assms j by (simp add: score_formula_def)
qed

subsection \<open>Fitting\<close>

lemma config_error_simps [simp]:
  "\<not> config_error (Inr x)" "\<not> config_error (Inl IndexError)" "\<not> config_error (Inl ValueError)"
  "\<not> config_error (Inl NewAxis)" "\<not> config_error (Inl TypeError)"
  "config_error (Inl (RuntimeError m))" "config_error (Inl (AssertionError m))"
  by (simp_all add: config_error_def)

lemma config_error_bind:
  "config_error (bind r f) \<longleftrightarrow> config_error r \<or> (\<exists>v. r = Inr v \<and> config_error (f v))"
  by (cases r) (auto simp: config_error_def)

lemma no_config_error_bind:
  assumes "\<not> config_error r" "\<And>v. \<not> config_error (f v)"
  shows "\<not> config_error (bind r f)"
  using assms by (simp add: config_error_bind)

lemma nce_py_index [simp]: "\<not> config_error (py_index xs i)"
  by (simp add: py_index_def)

lemma nce_np_broadcast [simp]: "\<not> config_error (np_broadcast f xs ys)"
  by (simp add: np_broadcast_def)

lemma nce_np_convolve [simp]: "\<not> config_error (np_convolve a v md)"
  by (cases md) (simp_all add: np_convolve_def)

lemma nce_np_fft [simp]: "\<not> config_error (np_fft xs)" "\<not> config_error (np_ifft xs)"
  by (simp_all add: np_fft_def np_ifft_def)

lemma nce_np_pad [simp]: "\<not> config_error (np_pad xs k v)"
  by (simp add: np_pad_def)

lemma nce_column [simp]: "\<not> config_error (column f i)"
  by (cases i) (simp_all add: column_def)

lemma nce_pd_DataFrame [simp]: "\<not> config_error (pd_DataFrame d i)"
  by (simp add: pd_DataFrame_def)

lemma nce_get_saliency_map: "\<not> config_error (get_saliency_map self vs)"
  unfolding get_saliency_map_def Let_def
  by (intro no_config_error_bind) simp_all

lemma nce_compute_grad: "\<not> config_error (compute_grad self vs)"
  unfolding compute_grad_def Let_def
  by (intro no_config_error_bind) simp_all

lemma nce_pad: "\<not> config_error (pad self vs)"
  unfolding pad_def Let_def
  by (intro no_config_error_bind nce_compute_grad) simp_all

lemma nce_trimmed_saliency: "\<not> config_error (trimmed_saliency self vs)"
  unfolding trimmed_saliency_def padded_values_def
  by (intro no_config_error_bind nce_get_saliency_map) (simp_all add: nce_pad)

lemma nce_working_values: "\<not> config_error (working_values self ts prev)"
  unfolding working_values_def Let_def
  by (cases prev) (simp_all add: config_error_bind)

lemma nce_local_average: "\<not> config_error (local_average self s n)"
  unfolding local_average_def Let_def
  by (intro no_config_error_bind) simp_all

lemma nce_score_assembly: "\<not> config_error (score_assembly s a)"
  unfolding score_assembly_def
  by (intro no_config_error_bind) simp_all

lemma nce_get_anomaly_score: "\<not> config_error (get_anomaly_score self ts prev)"
  unfolding get_anomaly_score_def
  by (intro no_config_error_bind nce_working_values nce_trimmed_saliency nce_local_average
        nce_score_assembly) simp_all

lemma train_one_channel:
  assumes "length (cols f) = 1"
  shows "train self f = (with_target self (Some 0), get_anomaly_score (with_target self (Some 0)) f None)"
  using assms by (simp add: train_def check_and_score_def with_target_def)

lemma train_multi_channel:
  assumes "length (cols f) \<noteq> 1"
  shows "train self f =
    (self, case target_seq_index (config self) of
             None \<Rightarrow> Inl (RuntimeError (missing_target_msg (length (cols f))))
           | Some t \<Rightarrow> if 0 \<le> t \<and> t < int (length (cols f))
                       then get_anomaly_score self f None
                       else Inl (AssertionError (out_of_range_msg (length (cols f)) t)))"
  using assms by (auto simp add: train_def check_and_score_def split: option.splits)

lemma with_target_simps [simp]:
  "config (with_target self t) = (config self)\<lparr>target_seq_index := t\<rparr>"
  "q_conv_map (with_target self t) = q_conv_map self"
  "local_conv_map (with_target self t) = local_conv_map self"
  "self_local_wind_sz (with_target self t) = self_local_wind_sz self"
  by (simp_all add: with_target_def)

lemma with_target_with_target [simp]: "with_target (with_target self t) u = with_target self u"
  by (simp add: with_target_def)

lemma init_with_target:
  assumes "init (config self) = Inr self"
  shows "init (config (with_target self t)) = Inr (with_target self t)"
proof -
  have nn: "\<not> q (config self) < 0" "\<not> local_wind_sz (config self) < 0"
    using assms by (auto simp: init_def np_ones_def split: if_splits)
  have "self = \<lparr>config = config self,
            q_conv_map = map (\<lambda>x. x / real_of_int (q (config self))) (replicate (nat (q (config self))) 1),
            self_local_wind_sz = local_wind_sz (config self),
            local_conv_map = replicate (nat (local_wind_sz (config self))) 1\<rparr>"
    using assms nn by (simp add: init_def np_ones_def)
  then have "with_target self t = \<lparr>config = (config self)\<lparr>target_seq_index := t\<rparr>,
            q_conv_map = map (\<lambda>x. x / real_of_int (q (config self))) (replicate (nat (q (config self))) 1),
            self_local_wind_sz = local_wind_sz (config self),
            local_conv_map = replicate (nat (local_wind_sz (config self))) 1\<rparr>"
    unfolding with_target_def by (metis SpectralResidual.update_convs(1))
  then show ?thesis
    using nn by (simp add: init_def np_ones_def)
qed

lemma get_anomaly_score_total:
  assumes "init (config self) = Inr self"
    and "1 \<le> q (config self)" "1 \<le> local_wind_sz (config self)"
      "0 \<le> predicting_points (config self)"
    and "target_seq_index (config self) = Some i" "0 \<le> i" "i < int (length (cols ts))"
    and "wf_frame ts" "history_ok i prev" "1 \<le> length (index ts)"
    and "q (config self) \<le> int (history_len prev + length (index ts))
                 + max 0 (estimated_points (config self))"
  shows "\<exists>scores. get_anomaly_score self ts prev = Inr \<lparr>index = index ts, cols = [scores]\<rparr>
           \<and> length scores = length (index ts)"
proof -
  obtain vs s where "working_values self ts prev = Inr vs"
    and v: "length vs = history_len prev + length (index ts)"
    and "trimmed_saliency self vs = Inr s"
    and s: "length s = length vs"
    and "local_average self s (length vs)
               = Inr (local_average_spec (nat (local_wind_sz (config self))) s)"
    and "score_assembly s (local_average_spec (nat (local_wind_sz (config self))) s)
               = Inr (score_formula s (local_average_spec (nat (local_wind_sz (config self))) s))"
    and r: "get_anomaly_score self ts prev =
               Inr \<lparr>index = index ts,
                    cols = [drop (history_len prev)
                              (score_formula s (local_average_spec (nat (local_wind_sz (config self))) s))]\<rparr>"
    using get_anomaly_score_char[OF assms] by (elim exE conjE)
  have "length (score_formula s (local_average_spec (nat (local_wind_sz (config self))) s)) = length vs"
    using s v assms(10) by (cases s) (simp_all add: score_formula_def)
  then show ?thesis using r v by simp
qed

lemma valid_training_scores:
  assumes "valid_training self f" "target_seq_index (config self) = Some i" "0 \<le> i"
    "i < int (length (cols f))"
  shows "\<exists>scores. get_anomaly_score self f None = Inr \<lparr>index = index f, cols = [scores]\<rparr>
           \<and> length scores = length (index f)"
proof -
  have v: "init (config self) = Inr self" "1 \<le> q (config self)" "1 \<le> local_wind_sz (config self)"
      "0 \<le> predicting_points (config self)" "wf_frame f" "1 \<le> length (index f)"
      "q (config self) \<le> int (history_len None + length (index f)) + max 0 (estimated_points (config self))"
    using assms(1) by (simp_all add: valid_training_def history_len_def)
  have h: "history_ok i None" by (simp add: history_ok_def)
  show ?thesis
    by (rule get_anomaly_score_total[OF v(1-4) assms(2-4) v(5) h v(6,7)])
qed

lemma valid_training_with_target:
  "valid_training (with_target self t) f = valid_training self f"
proof -
  have "init (config (with_target self t)) = Inr (with_target self t) \<longleftrightarrow> init (config self) = Inr self"
  proof
    assume a: "init (config (with_target self t)) = Inr (with_target self t)"
    have "with_target (with_target self t) (target_seq_index (config self)) = self"
      by (simp add: with_target_def)
    then show "init (config self) = Inr self"
      using init_with_target[OF a, of "target_seq_index (config self)"] by simp
  qed (rule init_with_target)
  then show ?thesis by (simp add: valid_training_def)
qed

lemma with_target_same: "target_seq_index (config self) = t \<Longrightarrow> with_target self t = self"
  by (simp add: with_target_def)

lemma get_saliency_map_short:
  assumes "2 \<le> length vs" "length vs < length (q_conv_map self)"
  shows "get_saliency_map self vs = Inl ValueError"
proof -
  have ne: "vs \<noteq> []" "q_conv_map self \<noteq> []" using assms by auto
  let ?la = "map (\<lambda>z. ln (cmod z)) (dft (map complex_of_real vs))"
  let ?f = "convolve_full ?la (q_conv_map self)"
  have "(length vs - 1) div 2 \<le> length vs - 1" by simp
  then have l: "length (q_conv_map self) \<le> length vs + length (q_conv_map self) - 1 - (length vs - 1) div 2"
    using assms by linarith
  have c: "np_convolve ?la (q_conv_map self) Same
        = Inr (take (length (q_conv_map self)) (drop ((length vs - 1) div 2) ?f))"
    using ne assms by (simp add: np_convolve_def max_absorb2 min_absorb1)
  have "length (take (length (q_conv_map self)) (drop ((length vs - 1) div 2) ?f))
        = length (q_conv_map self)"
    using l by simp
  then have "np_broadcast (-) ?la (take (length (q_conv_map self)) (drop ((length vs - 1) div 2) ?f))
        = Inl ValueError"
    using assms by (simp add: np_broadcast_def)
  then show ?thesis
    using ne by (simp add: get_saliency_map_def np_fft_def Let_def c)
qed

lemma missing_target_msg_3:
  "missing_target_msg 3 = ''Attempting to use the SR algorithm on a 3-variable time series, but didn'' @ [CHR 0x27] @ ''t specify a `target_seq_index` indicating which univariate is the target.''"
  by (simp add: missing_target_msg_def str_nat.simps)

lemma out_of_range_msg_3_5:
  "out_of_range_msg 3 5 = ''Expected `target_seq_index` to be between 0 and 3 (the dimension of the transformed data), but got 5''"
  by (simp add: out_of_range_msg_def str_int_def str_nat.simps)

lemma train_one_channel_valid:
  assumes "length (cols f) = 1" "valid_training self f"
  shows "\<exists>scores. snd (train (with_target self t) f) = Inr \<lparr>index = index f, cols = [scores]\<rparr>
           \<and> length scores = length (index f)"
proof -
  have v: "valid_training (with_target self (Some 0)) f"
    using assms(2) by (simp add: valid_training_with_target)
  have t: "target_seq_index (config (with_target self (Some 0))) = Some 0" by simp
  have "\<exists>scores. get_anomaly_score (with_target self (Some 0)) f None
          = Inr \<lparr>index = index f, cols = [scores]\<rparr> \<and> length scores = length (index f)"
    using valid_training_scores[OF v t] assms(1) by simp
  then show ?thesis
    using train_one_channel[OF assms(1), of "with_target self t"] by simp
qed

lemma default_valid:
  "valid_training (detector default_config) series3"
  "valid_training (detector default_config) three_channels"
  by (simp_all add: valid_training_def init_detector default_config_def series3_def
        three_channels_def wf_frame_def)

lemma three_channels_fit:
  "\<not> isl (snd (train (with_target (detector default_config) (Some 2)) three_channels))"
proof -
  let ?d = "with_target (detector default_config) (Some 2)"
  have v: "valid_training ?d three_channels"
    using default_valid(2) by (simp add: valid_training_with_target)
  have n: "length (cols three_channels) = 3" by (simp add: three_channels_def)
  have "\<exists>scores. get_anomaly_score ?d three_channels None
          = Inr \<lparr>index = index three_channels, cols = [scores]\<rparr>
          \<and> length scores = length (index three_channels)"
    by (rule valid_training_scores[OF v, of 2]) (simp_all add: n)
  then show ?thesis
    by (auto simp add: train_multi_channel n)
qed

lemma series3_fit:
  "\<not> isl (snd (train (with_target (detector default_config) t) series3))"
proof -
  have n: "length (cols series3) = 1" by (simp add: series3_def)
  show ?thesis
    using train_one_channel_valid[OF n default_valid(1), of t] by auto
qed

subsection \<open>The saliency map\<close>

lemma length_same_moving_average [simp]: "length (same_moving_average w xs) = length xs"
  by (simp add: same_moving_average_def)

lemma np_convolve_same_uniform:
  assumes "1 \<le> w" "w \<le> length xs"
  shows "np_convolve xs (replicate w (1 / real w)) Same = Inr (same_moving_average w xs)"
proof -
  let ?N = "length xs"
  let ?h = "(w - 1) div 2"
  let ?v = "replicate w (1 / real w)"
  let ?full = "convolve_full xs ?v"
  have ne: "xs \<noteq> []" "?v \<noteq> []" using assms by auto
  have hw: "?h \<le> w - 1" by simp
  have c: "np_convolve xs ?v Same = Inr (take ?N (drop ?h ?full))"
    using ne assms by (simp add: np_convolve_def max_absorb1 min_absorb2)
  have lf: "length ?full = ?N + w - 1" by simp
  have lt: "length (take ?N (drop ?h ?full)) = ?N"
    using hw assms by simp
  have "take ?N (drop ?h ?full) = same_moving_average w xs"
  proof (rule nth_equalityI)
    show "length (take ?N (drop ?h ?full)) = length (same_moving_average w xs)"
      using lt by simp
  next
    fix k assume "k < length (take ?N (drop ?h ?full))"
    then have k: "k < ?N" using lt by simp
    have hk: "?h + k < ?N + length ?v - 1" using k hw assms by simp
    have ix: "[0..<?N + length ?v - 1] ! (?h + k) = ?h + k" using hk by simp
    have "take ?N (drop ?h ?full) ! k = ?full ! (?h + k)"
      using k hk by simp
    also have "\<dots> = (\<Sum>j\<leftarrow>[0..<?N].
          if j \<le> [0..<?N + length ?v - 1] ! (?h + k)
             \<and> [0..<?N + length ?v - 1] ! (?h + k) - j < length ?v
          then xs ! j * ?v ! ([0..<?N + length ?v - 1] ! (?h + k) - j) else 0)"
      unfolding convolve_full_def using hk by (intro nth_map) simp
    also have "\<dots> = (\<Sum>j\<leftarrow>[0..<?N].
          if j \<le> k + ?h \<and> k + ?h < j + w then xs ! j * (1 / real w) else 0)"
      unfolding ix by (rule arg_cong[where f = sum_list], rule map_cong) (auto simp: add.commute)
    also have "\<dots> = same_moving_average w xs ! k"
      using k by (simp add: same_moving_average_def)
    finally show "take ?N (drop ?h ?full) ! k = same_moving_average w xs ! k" .
  qed
  then show ?thesis using c by simp
qed

lemma exp_broadcast:
  assumes "length rs = length ps"
  shows "map exp (map2 (+) (map complex_of_real rs) (map (\<lambda>p. \<i> * complex_of_real p) ps))
         = map2 (\<lambda>r p. exp (complex_of_real r + \<i> * complex_of_real p)) rs ps"
  using assms by (intro nth_equalityI) simp_all

lemma get_saliency_map_value:
  assumes "init (config self) = Inr self" "1 \<le> q (config self)"
    "nat (q (config self)) \<le> length vs"
  shows "get_saliency_map self vs = Inr (saliency_spec (nat (q (config self))) vs)"
proof -
  let ?w = "nat (q (config self))"
  let ?t = "dft (map complex_of_real vs)"
  let ?la = "map (\<lambda>z. ln (cmod z)) ?t"
  let ?ph = "map Arg ?t"
  have w: "1 \<le> ?w" "?w \<le> length ?la" using assms by simp_all
  have ne: "vs \<noteq> []" using assms by auto
  have qm: "q_conv_map self = replicate ?w (1 / real ?w)"
    using init_fields(1)[OF assms(1)] assms(2) by simp
  have c: "np_convolve ?la (q_conv_map self) Same = Inr (same_moving_average ?w ?la)"
    unfolding qm by (rule np_convolve_same_uniform[OF w])
  have b1: "np_broadcast (-) ?la (same_moving_average ?w ?la)
            = Inr (map2 (-) ?la (same_moving_average ?w ?la))"
    by (rule np_broadcast_same) simp
  let ?res = "map2 (-) ?la (same_moving_average ?w ?la)"
  have lr: "length ?res = length ?ph" by simp
  have b2: "np_broadcast (+) (map complex_of_real ?res) (map (\<lambda>p. \<i> * complex_of_real p) ?ph)
            = Inr (map2 (+) (map complex_of_real ?res) (map (\<lambda>p. \<i> * complex_of_real p) ?ph))"
    by (rule np_broadcast_same) simp
  let ?z = "map2 (\<lambda>r p. exp (complex_of_real r + \<i> * complex_of_real p)) ?res ?ph"
  have e: "map exp (map2 (+) (map complex_of_real ?res) (map (\<lambda>p. \<i> * complex_of_real p) ?ph)) = ?z"
    by (rule exp_broadcast[OF lr])
  have "length ?z = length vs" by simp
  then have zne: "?z \<noteq> []" using ne by (metis length_0_conv)
  have f: "np_fft (map complex_of_real vs) = Inr ?t" using ne by (simp add: np_fft_def)
  have i: "np_ifft (map exp (map2 (+) (map complex_of_real ?res) (map (\<lambda>p. \<i> * complex_of_real p) ?ph)))
           = Inr (idft ?z)"
    unfolding e using zne by (simp add: np_ifft_def)
  have "get_saliency_map self vs = Inr (map cmod (idft ?z))"
    by (simp only: get_saliency_map_def f bind_Inr Let_def c b1 b2 i)
  then show ?thesis by (simp add: saliency_spec_def Let_def)
qed

lemma length_saliency_spec [simp]: "length (saliency_spec w vs) = length vs"
  by (simp add: saliency_spec_def Let_def)

lemma cis_minus_pi: "cis (- pi) = - 1"
  by (simp add: complex_eq_iff)

lemma dft_two: "dft [a, b] = [a + b, a - b]"
  by (simp add: dft_def eval_nat_numeral upt_rec cis_minus_pi)

lemma idft_two: "idft [a, b] = [(a + b) / 2, (a - b) / 2]"
  by (simp add: idft_def eval_nat_numeral upt_rec)

lemma same_moving_average_one: "same_moving_average (Suc 0) [a, b] = [a, b]"
  by (simp add: same_moving_average_def eval_nat_numeral upt_rec)

lemma Arg_four: "Arg 4 = 0"
  by (rule cis_Arg_unique) (simp_all add: sgn_eq)

lemma Arg_minus_two: "Arg (- 2) = pi"
  by (rule cis_Arg_unique) (simp_all add: sgn_eq)

lemma saliency_spec_1_3: "saliency_spec (Suc 0) [1, 3] = [0, 1]"
  by (simp add: saliency_spec_def Let_def dft_two same_moving_average_one Arg_four Arg_minus_two
        idft_two)

lemma train_error_cases:
  "(config_error (snd (train self f)) \<longleftrightarrow>
      length (cols f) \<noteq> 1 \<and>
      (case target_seq_index (config self) of
         None \<Rightarrow> True
       | Some t \<Rightarrow> \<not> (0 \<le> t \<and> t < int (length (cols f)))))
   \<and> (length (cols f) \<noteq> 1 \<and> target_seq_index (config self) = None \<longrightarrow>
        train self f = (self, Inl (RuntimeError (missing_target_msg (length (cols f))))))
   \<and> (\<exists>pre post. missing_target_msg (length (cols f)) = pre @ str_nat (length (cols f)) @ post)
   \<and> (\<forall>t. length (cols f) \<noteq> 1 \<and> target_seq_index (config self) = Some t
            \<and> \<not> (0 \<le> t \<and> t < int (length (cols f))) \<longrightarrow>
        train self f = (self, Inl (AssertionError (out_of_range_msg (length (cols f)) t))))
   \<and> (\<not> config_error (snd (train self f)) \<longrightarrow>
        (\<exists>t. 0 \<le> t \<and> t < int (length (cols f))
           \<and> train self f = (with_target self (Some t),
                              get_anomaly_score (with_target self (Some t)) f None)))"
proof (cases "length (cols f) = 1")
  case True
  have m: "\<exists>pre post. missing_target_msg (length (cols f)) = pre @ str_nat (length (cols f)) @ post"
    unfolding missing_target_msg_def by blast
  have "0 \<le> (0::int) \<and> (0::int) < int (length (cols f))
        \<and> train self f = (with_target self (Some 0),
                              get_anomaly_score (with_target self (Some 0)) f None)"
    using True by (simp add: train_one_channel)
  then have e: "\<exists>t. 0 \<le> t \<and> t < int (length (cols f))
           \<and> train self f = (with_target self (Some t),
                              get_anomaly_score (with_target self (Some t)) f None)"
    by (rule exI)
  have n: "\<not> config_error (snd (train self f))"
    using True by (simp add: train_one_channel nce_get_anomaly_score)
  show ?thesis
    using True m e n by simp
next
  case False
  have m: "\<exists>pre post. missing_target_msg (length (cols f)) = pre @ str_nat (length (cols f)) @ post"
    unfolding missing_target_msg_def by blast
  show ?thesis
  proof (cases "target_seq_index (config self)")
    case None
    then show ?thesis using False m by (simp add: train_multi_channel)
  next
    case (Some t)
    show ?thesis
    proof (cases "0 \<le> t \<and> t < int (length (cols f))")
      case True
      have w: "with_target self (Some t) = self" using Some by (rule with_target_same)
      have "train self f = (with_target self (Some t), get_anomaly_score (with_target self (Some t)) f None)"
        unfolding w using False Some True by (simp add: train_multi_channel)
      then show ?thesis
        using False Some True m nce_get_anomaly_score[of "with_target self (Some t)" f None]
        by auto
    next
      case out: False
      have tr: "train self f = (self, Inl (AssertionError (out_of_range_msg (length (cols f)) t)))"
        using False Some out by (auto simp add: train_multi_channel)
      show ?thesis
        unfolding tr using False Some out m by auto
    qed
  qed
qed

lemma train_returns_when_valid:
  assumes v: "valid_training self f" and c: "1 \<le> length (cols f)"
    and n: "\<not> (1 < length (cols f) \<and>
            (case target_seq_index (config self) of
               None \<Rightarrow> True
             | Some t \<Rightarrow> \<not> (0 \<le> t \<and> t < int (length (cols f)))))"
  shows "\<exists>scores. snd (train self f) = Inr \<lparr>index = index f, cols = [scores]\<rparr>
           \<and> length scores = length (index f)"
proof (cases "length (cols f) = 1")
  case True
  have w: "with_target self (target_seq_index (config self)) = self"
    by (rule with_target_same) simp
  show ?thesis
    using train_one_channel_valid[OF True v, of "target_seq_index (config self)"]
    unfolding w .
next
  case False
  then have m: "1 < length (cols f)" using c by linarith
  then obtain t where t: "target_seq_index (config self) = Some t" "0 \<le> t"
      "t < int (length (cols f))"
    using n by (cases "target_seq_index (config self)") auto
  have "train self f = (self, get_anomaly_score self f None)"
    using False t by (simp add: train_multi_channel)
  then show ?thesis
    using valid_training_scores[OF v t] by simp
qed

section \<open>The claims\<close>

text \<open>
  C1, as the code has it. For every valid input series whose working array (history and
  padding included) has at least \<open>q\<close> values, the score operation returns exactly one score
  per input timestamp: the output holds one column as long as the input series, under the
  input series' own index, with or without a history prefix. Valid means: the detector is as
  its constructor built it, with positive \<open>q\<close> and \<open>local_wind_sz\<close> and non-negative
  \<open>predicting_points\<close>; the target index is resolved and within the channels of the
  series and of the history; the series has at least one point. In particular a length-50
  series with a 50-point history gives 50 scores under the index of the series.
\<close>

theorem score_output_alignment:
  assumes "init (config self) = Inr self"
    and "1 \<le> q (config self)" "1 \<le> local_wind_sz (config self)"
      "0 \<le> predicting_points (config self)"
    and "target_seq_index (config self) = Some i" "0 \<le> i" "i < int (length (cols ts))"
    and "wf_frame ts" "history_ok i prev" "1 \<le> length (index ts)"
    and "q (config self) \<le> int (history_len prev + length (index ts))
                 + max 0 (estimated_points (config self))"
  shows "\<exists>scores. get_anomaly_score self ts prev = Inr \<lparr>index = index ts, cols = [scores]\<rparr>
           \<and> length scores = length (index ts)"
  by (rule get_anomaly_score_total[OF assms])

theorem score_output_alignment_witness:
  "\<exists>scores. get_anomaly_score (detector (default_config\<lparr>target_seq_index := Some 0\<rparr>))
              series50 (Some history50)
            = Inr \<lparr>index = index series50, cols = [scores]\<rparr> \<and> length scores = 50"
  using score_output_alignment[of "detector (default_config\<lparr>target_seq_index := Some 0\<rparr>)"
          0 series50 "Some history50"]
  by (simp add: init_detector default_config_def series50_facts history50_facts
        history_ok_def history_len_def)

text \<open>
  C1 as stated fails: with \<open>estimated_points = 0\<close> and \<open>q = 3\<close>, scoring a one-channel
  series of two rows under index 0 returns no scores: it raises a \<open>ValueError\<close> (line 103:
  two log amplitudes against a same-mode convolution of three entries).
\<close>

theorem scoring_fails_below_q_rows:
  "get_anomaly_score (detector (default_config\<lparr>estimated_points := 0, target_seq_index := Some 0\<rparr>))
     series2 None = Inl ValueError"
proof -
  let ?d = "detector (default_config\<lparr>estimated_points := 0, target_seq_index := Some 0\<rparr>)"
  have w: "working_values ?d series2 None = Inr [1, 3]"
    by (simp add: working_values_def column_def py_index_def series2_def)
  have "get_saliency_map ?d [1, 3] = Inl ValueError"
    by (rule get_saliency_map_short) (simp_all add: detector_def default_config_def)
  then have t: "trimmed_saliency ?d [1, 3] = Inl ValueError"
    by (simp add: trimmed_saliency_def padded_values_def default_config_def)
  show ?thesis
    by (simp add: get_anomaly_score_def w t)
qed

text \<open>
  C2. In every valid scoring call, with working array of length \<open>N\<close>, trimmed saliency map
  \<open>s\<close> (of length \<open>N\<close>) and trailing local averages \<open>a\<close> (of length \<open>N - 1\<close>), the
  assembled score array has length \<open>N\<close>, its entry 0 is \<open>0\<close>, every entry \<open>k\<close> in
  \<open>1..N-1\<close> is \<open>(s[k] - a[k-1]) / (a[k-1] + 1e-8)\<close>, and the returned scores are the
  last \<open>len(series)\<close> entries of this array.
\<close>

theorem score_array_aligned:
  assumes "init (config self) = Inr self"
    and "1 \<le> q (config self)" "1 \<le> local_wind_sz (config self)"
      "0 \<le> predicting_points (config self)"
    and "target_seq_index (config self) = Some i" "0 \<le> i" "i < int (length (cols ts))"
    and "wf_frame ts" "history_ok i prev" "1 \<le> length (index ts)"
    and "q (config self) \<le> int (history_len prev + length (index ts))
                 + max 0 (estimated_points (config self))"
  shows "\<exists>values s a scores.
           working_values self ts prev = Inr values
         \<and> trimmed_saliency self values = Inr s \<and> length s = length values
         \<and> local_average self s (length values) = Inr a \<and> length a = length values - 1
         \<and> score_assembly s a = Inr scores \<and> length scores = length values
         \<and> scores ! 0 = 0
         \<and> (\<forall>k \<in> {1..<length values}.
               scores ! k = (s ! k - a ! (k - 1)) / (a ! (k - 1) + 1 / 10 ^ 8))
         \<and> length (index ts) \<le> length scores
         \<and> get_anomaly_score self ts prev =
             Inr \<lparr>index = index ts,
                  cols = [drop (length scores - length (index ts)) scores]\<rparr>"
proof -
  let ?w = "nat (local_wind_sz (config self))"
  obtain vs s where w: "working_values self ts prev = Inr vs"
    and v: "length vs = history_len prev + length (index ts)"
    and t: "trimmed_saliency self vs = Inr s"
    and s: "length s = length vs"
    and l: "local_average self s (length vs) = Inr (local_average_spec ?w s)"
    and sc: "score_assembly s (local_average_spec ?w s)
               = Inr (score_formula s (local_average_spec ?w s))"
    and r: "get_anomaly_score self ts prev =
               Inr \<lparr>index = index ts,
                    cols = [drop (history_len prev)
                              (score_formula s (local_average_spec ?w s))]\<rparr>"
    using get_anomaly_score_char[OF assms] by (elim exE conjE)
  let ?a = "local_average_spec ?w s"
  let ?sc = "score_formula s ?a"
  have la: "length ?a = length vs - 1" using s by simp
  have la': "length ?a = length s - 1" by simp
  have lsc: "length ?sc = length vs"
    using s v assms(10) by (cases s) (simp_all add: score_formula_def)
  have z: "?sc ! 0 = 0" by (simp add: score_formula_def)
  have f: "\<forall>k \<in> {1..<length vs}. ?sc ! k = (s ! k - ?a ! (k - 1)) / (?a ! (k - 1) + 1 / 10 ^ 8)"
    using score_formula_nth[OF la'] s by simp
  have d: "length ?sc - length (index ts) = history_len prev" using lsc v by simp
  have le: "length (index ts) \<le> length ?sc" using lsc v by simp
  show ?thesis
    using w t s l la sc lsc z f le r unfolding d[symmetric] by blast
qed

theorem score_array_aligned_witness:
  "\<exists>values s a scores.
           working_values (detector (default_config\<lparr>target_seq_index := Some 0\<rparr>)) series50 (Some history50) = Inr values
         \<and> trimmed_saliency (detector (default_config\<lparr>target_seq_index := Some 0\<rparr>)) values = Inr s \<and> length s = length values
         \<and> local_average (detector (default_config\<lparr>target_seq_index := Some 0\<rparr>)) s (length values) = Inr a \<and> length a = length values - 1
         \<and> score_assembly s a = Inr scores \<and> length scores = length values
         \<and> scores ! 0 = 0
         \<and> (\<forall>k \<in> {1..<length values}.
               scores ! k = (s ! k - a ! (k - 1)) / (a ! (k - 1) + 1 / 10 ^ 8))
         \<and> length (index series50) \<le> length scores
         \<and> get_anomaly_score (detector (default_config\<lparr>target_seq_index := Some 0\<rparr>)) series50 (Some history50) =
             Inr \<lparr>index = index series50,
                  cols = [drop (length scores - length (index series50)) scores]\<rparr>"
  using score_array_aligned[of "detector (default_config\<lparr>target_seq_index := Some 0\<rparr>)"
          0 series50 "Some history50"]
  by (simp add: init_detector default_config_def series50_facts history50_facts
        history_ok_def history_len_def)

text \<open>
  C3. For a trimmed saliency map of length \<open>N \<ge> 1\<close> the trailing local average is the full
  convolution with \<open>local_wind_sz\<close> ones, cut to its first \<open>N\<close> entries, entry \<open>k\<close>
  (1-based) divided by \<open>min k local_wind_sz\<close>, the last entry dropped: an array of length
  \<open>N - 1\<close> whose entry at 0-based position \<open>k\<close> is the sum of the up to
  \<open>local_wind_sz\<close> saliency values ending at \<open>k\<close>, over their number.
\<close>

theorem local_average_ramp:
  assumes "init (config self) = Inr self" "1 \<le> local_wind_sz (config self)" "s \<noteq> []"
  shows "local_average self s (length s)
           = Inr (local_average_spec (nat (local_wind_sz (config self))) s)
       \<and> length (local_average_spec (nat (local_wind_sz (config self))) s) = length s - 1
       \<and> (\<forall>k < length s - 1.
             local_average_spec (nat (local_wind_sz (config self))) s ! k
             = (\<Sum>j = Suc k - nat (local_wind_sz (config self))..k. s ! j)
               / real (min (Suc k) (nat (local_wind_sz (config self)))))"
proof -
  let ?w = "nat (local_wind_sz (config self))"
  have w: "1 \<le> ?w" using assms(2) by simp
  have lm: "local_conv_map self = replicate ?w 1"
    and lw: "self_local_wind_sz self = int ?w"
    using init_fields[OF assms(1)] assms(2) by simp_all
  show ?thesis
    using local_average_value[OF assms(3) w lm lw] local_average_spec_nth[OF _ w, of _ s]
    by simp
qed

theorem local_average_ramp_witness:
  "local_average (detector (default_config\<lparr>local_wind_sz := 2\<rparr>)) [1, 2, 4, 8]
       (length [1, 2, 4, 8 :: real])
     = Inr [1, 3 / 2, 3]"
proof -
  let ?d = "detector (default_config\<lparr>local_wind_sz := 2\<rparr>)"
  have i: "init (config ?d) = Inr ?d" by (simp add: init_detector default_config_def)
  have w: "1 \<le> local_wind_sz (config ?d)" by (simp add: default_config_def)
  have n: "[1, 2, 4, 8::real] \<noteq> []" by simp
  note t = local_average_ramp[OF i w n]
  have "local_average_spec 2 [1, 2, 4, 8] = [1, 3 / 2, 3]"
    by (simp add: local_average_spec_def convolve_full_def eval_nat_numeral upt_rec)
  then show ?thesis using t by (simp add: default_config_def)
qed

text \<open>
  C4, as the code has it. In every valid scoring call the first returned score is exactly
  \<open>0\<close> when no history (or a history without rows) is supplied; with a history of
  \<open>h \<ge> 1\<close> rows it is entry \<open>h\<close> of the score array,
  \<open>(s[h] - a[h-1]) / (a[h-1] + 1e-8)\<close>, for the trimmed saliency map \<open>s\<close> and the
  trailing local averages \<open>a\<close> of the working array.
\<close>

theorem first_score:
  assumes "init (config self) = Inr self"
    and "1 \<le> q (config self)" "1 \<le> local_wind_sz (config self)"
      "0 \<le> predicting_points (config self)"
    and "target_seq_index (config self) = Some i" "0 \<le> i" "i < int (length (cols ts))"
    and "wf_frame ts" "history_ok i prev" "1 \<le> length (index ts)"
    and "q (config self) \<le> int (history_len prev + length (index ts))
                 + max 0 (estimated_points (config self))"
  shows "\<exists>values s a scores.
           working_values self ts prev = Inr values
         \<and> trimmed_saliency self values = Inr s
         \<and> local_average self s (length values) = Inr a
         \<and> get_anomaly_score self ts prev = Inr \<lparr>index = index ts, cols = [scores]\<rparr>
         \<and> length scores = length (index ts)
         \<and> (history_len prev = 0 \<longrightarrow> scores ! 0 = 0)
         \<and> (0 < history_len prev \<longrightarrow>
               scores ! 0 = (s ! history_len prev - a ! (history_len prev - 1))
                            / (a ! (history_len prev - 1) + 1 / 10 ^ 8))"
proof -
  let ?w = "nat (local_wind_sz (config self))"
  let ?h = "history_len prev"
  obtain vs s where w: "working_values self ts prev = Inr vs"
    and v: "length vs = ?h + length (index ts)"
    and t: "trimmed_saliency self vs = Inr s"
    and s: "length s = length vs"
    and l: "local_average self s (length vs) = Inr (local_average_spec ?w s)"
    and "score_assembly s (local_average_spec ?w s)
               = Inr (score_formula s (local_average_spec ?w s))"
    and r: "get_anomaly_score self ts prev =
               Inr \<lparr>index = index ts,
                    cols = [drop ?h (score_formula s (local_average_spec ?w s))]\<rparr>"
    using get_anomaly_score_char[OF assms] by (elim exE conjE)
  let ?a = "local_average_spec ?w s"
  let ?sc = "score_formula s ?a"
  have la: "length ?a = length s - 1" by simp
  have lsc: "length ?sc = length vs"
    using s v assms(10) by (cases s) (simp_all add: score_formula_def)
  have hl: "?h < length ?sc" using lsc v assms(10) by linarith
  have d0: "drop ?h ?sc ! 0 = ?sc ! ?h" using hl by simp
  have z: "?h = 0 \<longrightarrow> drop ?h ?sc ! 0 = 0" by (simp add: score_formula_def)
  have p: "0 < ?h \<longrightarrow> drop ?h ?sc ! 0 = (s ! ?h - ?a ! (?h - 1)) / (?a ! (?h - 1) + 1 / 10 ^ 8)"
    unfolding d0 using score_formula_nth[OF la, of ?h] hl lsc s by simp
  have ld: "length (drop ?h ?sc) = length (index ts)" using lsc v by simp
  from w t l r ld z p show ?thesis
    by (intro exI[of _ vs] exI[of _ s] exI[of _ ?a] exI[of _ "drop ?h ?sc"] conjI)
qed

theorem first_score_witness:
  "(\<exists>scores. get_anomaly_score (detector (default_config\<lparr>target_seq_index := Some 0\<rparr>))
                series50 None = Inr \<lparr>index = index series50, cols = [scores]\<rparr>
             \<and> length scores = 50 \<and> scores ! 0 = 0)
   \<and> (\<exists>values s a scores.
           working_values (detector (default_config\<lparr>target_seq_index := Some 0\<rparr>))
             series50 (Some history50) = Inr values
         \<and> trimmed_saliency (detector (default_config\<lparr>target_seq_index := Some 0\<rparr>)) values = Inr s
         \<and> local_average (detector (default_config\<lparr>target_seq_index := Some 0\<rparr>)) s (length values) = Inr a
         \<and> get_anomaly_score (detector (default_config\<lparr>target_seq_index := Some 0\<rparr>))
             series50 (Some history50) = Inr \<lparr>index = index series50, cols = [scores]\<rparr>
         \<and> length scores = 50
         \<and> scores ! 0 = (s ! 50 - a ! 49) / (a ! 49 + 1 / 10 ^ 8))"
proof -
  let ?d = "detector (default_config\<lparr>target_seq_index := Some 0\<rparr>)"
  have 1: "\<exists>scores. get_anomaly_score ?d series50 None
                = Inr \<lparr>index = index series50, cols = [scores]\<rparr>
             \<and> length scores = 50 \<and> scores ! 0 = 0"
    using first_score[of ?d 0 series50 None]
    by (simp add: init_detector default_config_def series50_facts history_ok_def history_len_def)
       blast
  have 2: "\<exists>values s a scores.
           working_values ?d series50 (Some history50) = Inr values
         \<and> trimmed_saliency ?d values = Inr s
         \<and> local_average ?d s (length values) = Inr a
         \<and> get_anomaly_score ?d series50 (Some history50)
              = Inr \<lparr>index = index series50, cols = [scores]\<rparr>
         \<and> length scores = 50
         \<and> scores ! 0 = (s ! 50 - a ! 49) / (a ! 49 + 1 / 10 ^ 8)"
    using first_score[of ?d 0 series50 "Some history50"]
    by (simp add: init_detector default_config_def series50_facts history50_facts
          history_ok_def history_len_def)
  show ?thesis using 1 2 by (rule conjI)
qed

text \<open>
  C4 as stated fails: with \<open>q = 1\<close> and \<open>estimated_points = 0\<close>, scoring the one-row
  series \<open>[3]\<close> after the one-row history \<open>[1]\<close> returns the single score \<open>10^8\<close>
  (the saliency map of \<open>[1, 3]\<close> is \<open>[0, 1]\<close>, the score array \<open>[0, 10^8]\<close>, and line 139
  returns its last entry). In float64 the saliency at position 0 is about \<open>6e-17\<close> and
  the score about \<open>1e8\<close>.
\<close>

theorem first_score_after_history_not_zero:
  "get_anomaly_score (detector (default_config\<lparr>q := 1, estimated_points := 0,
                                                target_seq_index := Some 0\<rparr>))
     series1 (Some history1)
   = Inr \<lparr>index = [1], cols = [[10 ^ 8]]\<rparr>"
proof -
  let ?d = "detector (default_config\<lparr>q := 1, estimated_points := 0, target_seq_index := Some 0\<rparr>)"
  have i: "init (config ?d) = Inr ?d" by (simp add: init_detector default_config_def)
  have c: "q (config ?d) = 1" "estimated_points (config ?d) = 0" "local_wind_sz (config ?d) = 21"
    by (simp_all add: default_config_def)
  have w: "working_values ?d series1 (Some history1) = Inr [1, 3]"
    by (simp add: working_values_def column_def py_index_def series1_def history1_def)
  have "get_saliency_map ?d [1, 3] = Inr (saliency_spec (nat (q (config ?d))) [1, 3])"
    by (rule get_saliency_map_value[OF i]) (simp_all add: c)
  then have s: "get_saliency_map ?d [1, 3] = Inr [0, 1]"
    using saliency_spec_1_3 by (simp add: c)
  have t: "trimmed_saliency ?d [1, 3] = Inr [0, 1]"
    by (simp add: trimmed_saliency_def padded_values_def c s)
  have lm: "local_conv_map ?d = replicate 21 1" "self_local_wind_sz ?d = int 21"
    by (simp_all add: detector_def default_config_def)
  have la: "local_average ?d [0, 1] (length [0, 1 :: real]) = Inr (local_average_spec 21 [0, 1])"
    by (rule local_average_value[OF _ _ lm]) simp_all
  have "length (local_average_spec 21 [0, 1 :: real]) = 1" by simp
  moreover have "local_average_spec 21 [0, 1] ! 0 = 0"
    using local_average_spec_nth[of 0 "[0, 1]" 21] by simp
  ultimately have "local_average_spec 21 [0, 1] = [0]"
    by (cases "local_average_spec 21 [0, 1]") auto
  then have a: "local_average ?d [0, 1] (length [1, 3 :: real]) = Inr [0]"
    using la by simp
  have sc: "score_assembly [0, 1] [0] = Inr [0, 10 ^ 8]"
    using score_assembly_value[of "[0]" "[0, 1]"] by simp
  have sl: "py_slice_from [0, 10 ^ 8 :: real] (- int (length (index series1))) = [10 ^ 8]"
    by (simp add: py_slice_from_def slice_bound_def series1_def)
  have df: "pd_DataFrame [10 ^ 8] (index series1) = Inr \<lparr>index = [1], cols = [[10 ^ 8]]\<rparr>"
    by (simp add: pd_DataFrame_def series1_def)
  show ?thesis
    by (simp only: get_anomaly_score_def w bind_Inr t a sc sl df)
qed

text \<open>
  C5, as the code has it. For a constructed detector with \<open>q \<ge> 1\<close> and every input array
  of at least \<open>q\<close> values, the saliency map is the element-wise magnitude of the inverse
  Fourier transform of \<open>exp (residual + \<i> * phase)\<close>, where the residual is the log
  amplitude of the forward transform minus its same-mode moving average with the uniform
  kernel \<open>1/q\<close> of width \<open>q\<close>, and the phase is the angle of the spectrum; it is as long as
  the input.
\<close>

theorem saliency_map_spectral_residual:
  assumes "init (config self) = Inr self" "1 \<le> q (config self)"
    "nat (q (config self)) \<le> length values"
  shows "get_saliency_map self values = Inr (saliency_spec (nat (q (config self))) values)
       \<and> length (saliency_spec (nat (q (config self))) values) = length values"
  using get_saliency_map_value[OF assms] by simp

theorem saliency_map_spectral_residual_witness:
  "get_saliency_map (detector default_config) [1, 3, 2] = Inr (saliency_spec 3 [1, 3, 2])
   \<and> length (saliency_spec 3 [1, 3, 2]) = length [1, 3, 2 :: real]"
  using saliency_map_spectral_residual[of "detector default_config" "[1, 3, 2]"]
  by (simp add: init_detector default_config_def)

text \<open>
  C5 as stated fails for an input shorter than \<open>q\<close>: numpy's same-mode convolution has
  \<open>max (len, q)\<close> entries, so with \<open>q = 3\<close> the one-value input \<open>[2]\<close> is stretched by
  broadcasting and the saliency map returned has three entries.
\<close>

theorem saliency_map_longer_than_short_input:
  "map_sum id length (get_saliency_map (detector default_config) [2]) = Inr 3"
proof -
  let ?d = "detector default_config"
  let ?t = "dft (map complex_of_real [2])"
  let ?la = "map (\<lambda>z. ln (cmod z)) ?t"
  let ?ph = "map (\<lambda>p. \<i> * complex_of_real p) (map Arg ?t)"
  have q: "length (q_conv_map ?d) = 3"
    by (simp add: detector_def default_config_def)
  have f: "np_fft (map complex_of_real [2]) = Inr ?t" by (simp add: np_fft_def)
  have l: "length ?la = 1" "length ?ph = 1" by simp_all
  have ne: "?la \<noteq> []" "q_conv_map ?d \<noteq> []" using l q by auto
  obtain avg where c: "np_convolve ?la (q_conv_map ?d) Same = Inr avg" and la: "length avg = 3"
    using ne l q by (simp add: np_convolve_def)
  let ?res = "map ((-) (hd ?la)) avg"
  have b1: "np_broadcast (-) ?la avg = Inr ?res"
    using l la by (simp add: np_broadcast_def)
  let ?z = "map (\<lambda>x. x + hd ?ph) (map complex_of_real ?res)"
  have b2: "np_broadcast (+) (map complex_of_real ?res) ?ph = Inr ?z"
    using l la by (simp add: np_broadcast_def)
  have lz: "length (map exp ?z) = 3" using la by simp
  then have "map exp ?z \<noteq> []" by auto
  then have i: "np_ifft (map exp ?z) = Inr (idft (map exp ?z))" by (simp add: np_ifft_def)
  have "get_saliency_map ?d [2] = Inr (map cmod (idft (map exp ?z)))"
    by (simp only: get_saliency_map_def f bind_Inr Let_def c b1 b2 i)
  then show ?thesis using lz by simp
qed

text \<open>
  C6. For an array of length at least 2 and \<open>m = min predicting_points (length - 1)\<close>, the
  gradient is the arithmetic mean of the \<open>m\<close> per-step slopes to the final value (divisors
  \<open>m, m - 1, ..., 1\<close>); padding appends \<open>estimated_points\<close> copies of
  \<open>values[length - m] + gradient * m\<close>; the scorer pads when \<open>estimated_points > 0\<close> and
  passes the values through untouched when \<open>estimated_points = 0\<close>.
\<close>

theorem padding_stage:
  assumes "2 \<le> length values" "1 \<le> predicting_points (config self)"
  shows "compute_grad self values
           = Inr (gradient_spec (nat (min (predicting_points (config self)) (int (length values) - 1))) values)
       \<and> (0 \<le> estimated_points (config self) \<longrightarrow>
            pad self values =
              Inr (values @ replicate (nat (estimated_points (config self)))
                     (values ! (length values
                                 - nat (min (predicting_points (config self)) (int (length values) - 1)))
                      + gradient_spec (nat (min (predicting_points (config self)) (int (length values) - 1))) values
                        * real (nat (min (predicting_points (config self)) (int (length values) - 1))))))
       \<and> (0 < estimated_points (config self) \<longrightarrow> padded_values self values = pad self values)
       \<and> (estimated_points (config self) = 0 \<longrightarrow> padded_values self values = Inr values)"
  using compute_grad_value[OF assms] pad_value[OF assms]
  by (simp add: padded_values_def)

theorem padding_stage_witness:
  "compute_grad (detector default_config) [1, 2, 4] = Inr (7 / 4)
   \<and> pad (detector default_config) [1, 2, 4] = Inr ([1, 2, 4] @ replicate 5 (11 / 2))
   \<and> padded_values (detector default_config) [1, 2, 4] = pad (detector default_config) [1, 2, 4]
   \<and> padded_values (detector (default_config\<lparr>estimated_points := 0\<rparr>)) [1, 2, 4] = Inr [1, 2, 4]"
proof -
  have g: "gradient_spec 2 [1, 2, 4] = 7 / 4"
    by (simp add: gradient_spec_def slopes_spec_def eval_nat_numeral upt_rec)
  have m: "nat (min 5 (int (length [1, 2, 4 :: real]) - 1)) = 2" by simp
  show ?thesis
    using padding_stage[of "[1, 2, 4]" "detector default_config"]
      padding_stage[of "[1, 2, 4]" "detector (default_config\<lparr>estimated_points := 0\<rparr>)"]
    by (simp add: default_config_def g m)
qed

text \<open>
  C7, as the code has it. Fitting raises a configuration error when the series has more
  than one channel and no target index was configured (a \<open>RuntimeError\<close> whose message
  names the channel count), and when it has more than one channel and the configured index
  falls outside \<open>[0, channel_count)\<close> (a failed assertion); with no channel at all it
  raises the same two errors. In all other cases fitting does not raise, provided the
  training call is valid: a constructed detector with positive windows, and a series with at
  least one channel, at least one row and, padding included, at least \<open>q\<close> rows. Without
  that proviso fitting still raises no configuration error: it is scoring the training
  series under the resolved index.
\<close>

theorem train_configuration_errors:
  "(config_error (snd (train self f)) \<longleftrightarrow>
      length (cols f) \<noteq> 1 \<and>
      (case target_seq_index (config self) of
         None \<Rightarrow> True
       | Some t \<Rightarrow> \<not> (0 \<le> t \<and> t < int (length (cols f)))))
   \<and> (length (cols f) \<noteq> 1 \<and> target_seq_index (config self) = None \<longrightarrow>
        train self f = (self, Inl (RuntimeError (missing_target_msg (length (cols f))))))
   \<and> (\<exists>pre post. missing_target_msg (length (cols f)) = pre @ str_nat (length (cols f)) @ post)
   \<and> (\<forall>t. length (cols f) \<noteq> 1 \<and> target_seq_index (config self) = Some t
            \<and> \<not> (0 \<le> t \<and> t < int (length (cols f))) \<longrightarrow>
        train self f = (self, Inl (AssertionError (out_of_range_msg (length (cols f)) t))))
   \<and> (\<not> config_error (snd (train self f)) \<longrightarrow>
        (\<exists>t. 0 \<le> t \<and> t < int (length (cols f))
           \<and> train self f = (with_target self (Some t),
                              get_anomaly_score (with_target self (Some t)) f None)))
   \<and> (valid_training self f \<and> 1 \<le> length (cols f)
      \<and> \<not> (1 < length (cols f) \<and>
            (case target_seq_index (config self) of
               None \<Rightarrow> True
             | Some t \<Rightarrow> \<not> (0 \<le> t \<and> t < int (length (cols f))))) \<longrightarrow>
        (\<exists>scores. snd (train self f) = Inr \<lparr>index = index f, cols = [scores]\<rparr>
                 \<and> length scores = length (index f)))"
proof -
  have r: "valid_training self f \<and> 1 \<le> length (cols f)
      \<and> \<not> (1 < length (cols f) \<and>
            (case target_seq_index (config self) of
               None \<Rightarrow> True
             | Some t \<Rightarrow> \<not> (0 \<le> t \<and> t < int (length (cols f))))) \<longrightarrow>
        (\<exists>scores. snd (train self f) = Inr \<lparr>index = index f, cols = [scores]\<rparr>
                 \<and> length scores = length (index f))"
    using train_returns_when_valid[of self f] by blast
  show ?thesis
    using train_error_cases[of self f] r by (elim conjE) (intro conjI; assumption)
qed

theorem train_configuration_errors_witness:
  "train (detector default_config) three_channels
     = (detector default_config,
        Inl (RuntimeError (''Attempting to use the SR algorithm on a 3-variable time series, but didn''
              @ [CHR 0x27] @ ''t specify a `target_seq_index` indicating which univariate is the target.'')))
   \<and> train (with_target (detector default_config) (Some 5)) three_channels
     = (with_target (detector default_config) (Some 5),
        Inl (AssertionError ''Expected `target_seq_index` to be between 0 and 3 (the dimension of the transformed data), but got 5''))
   \<and> \<not> config_error (snd (train (with_target (detector default_config) (Some 2)) three_channels))
   \<and> (\<exists>scores. snd (train (with_target (detector default_config) (Some 2)) three_channels)
                  = Inr \<lparr>index = index three_channels, cols = [scores]\<rparr>
              \<and> length scores = length (index three_channels))"
proof -
  let ?d = "detector default_config"
  have n: "length (cols three_channels) = 3" by (simp add: three_channels_def)
  have t0: "target_seq_index (config ?d) = None" by (simp add: default_config_def)
  have t5: "target_seq_index (config (with_target ?d (Some 5))) = Some 5" by simp
  have t2: "target_seq_index (config (with_target ?d (Some 2))) = Some 2" by simp
  have v: "valid_training (with_target ?d (Some 2)) three_channels"
    using default_valid(2) by (simp add: valid_training_with_target)
  have 1: "train ?d three_channels = (?d, Inl (RuntimeError (missing_target_msg 3)))"
    using train_configuration_errors[of ?d three_channels, unfolded n] t0 by simp
  have 2: "train (with_target ?d (Some 5)) three_channels
           = (with_target ?d (Some 5), Inl (AssertionError (out_of_range_msg 3 5)))"
    using train_configuration_errors[of "with_target ?d (Some 5)" three_channels, unfolded n t5]
    by simp
  have 3: "\<not> config_error (snd (train (with_target ?d (Some 2)) three_channels))"
    using train_configuration_errors[of "with_target ?d (Some 2)" three_channels, unfolded n t2]
    by simp
  have 4: "\<exists>scores. snd (train (with_target ?d (Some 2)) three_channels)
                  = Inr \<lparr>index = index three_channels, cols = [scores]\<rparr>
              \<and> length scores = length (index three_channels)"
    using train_configuration_errors[of "with_target ?d (Some 2)" three_channels] v
    by (simp add: n)
  show ?thesis
    using 1 2 3 4 by (simp only: missing_target_msg_3 out_of_range_msg_3_5) simp
qed

text \<open>
  C7 as stated fails: with \<open>estimated_points = 0\<close> and \<open>q = 3\<close>, fitting a two-channel
  series of two rows under the configured index 1 is one of the "other cases", and it raises
  a \<open>ValueError\<close> (line 103: two log amplitudes against a same-mode convolution of three
  entries).
\<close>

theorem in_range_target_fit_fails_below_q_rows:
  "snd (train (with_target (detector (default_config\<lparr>estimated_points := 0\<rparr>)) (Some 1))
          two_channels) = Inl ValueError"
proof -
  let ?d = "with_target (detector (default_config\<lparr>estimated_points := 0\<rparr>)) (Some 1)"
  have n: "length (cols two_channels) \<noteq> 1" "length (cols two_channels) = 2"
    by (simp_all add: two_channels_def)
  have w: "working_values ?d two_channels None = Inr [2, 5]"
    by (simp add: working_values_def column_def py_index_def two_channels_def)
  have "get_saliency_map ?d [2, 5] = Inl ValueError"
    by (rule get_saliency_map_short) (simp_all add: detector_def default_config_def)
  then have t: "trimmed_saliency ?d [2, 5] = Inl ValueError"
    by (simp add: trimmed_saliency_def padded_values_def default_config_def)
  have "train ?d two_channels = (?d, get_anomaly_score ?d two_channels None)"
    using n by (simp add: train_multi_channel)
  then show ?thesis
    by (simp add: get_anomaly_score_def w t)
qed

text \<open>
  C8, as the code has it. On a one-channel series, fitting with the target index unset does
  exactly what fitting with the index set to 0 does (same detector afterwards, same scores or
  same exception); it returns one score per row whenever the training call is valid: a
  constructed detector with positive windows, a series with at least one row and, padding
  included, at least \<open>q\<close> rows.
\<close>

theorem single_channel_auto_resolution:
  assumes "length (cols f) = 1"
  shows "train (with_target self None) f = train (with_target self (Some 0)) f
       \<and> (valid_training self f \<longrightarrow>
            (\<exists>scores. snd (train (with_target self None) f)
                         = Inr \<lparr>index = index f, cols = [scores]\<rparr>
                     \<and> length scores = length (index f)))"
  using train_one_channel[OF assms, of "with_target self None"]
    train_one_channel[OF assms, of "with_target self (Some 0)"]
    train_one_channel_valid[OF assms, of self None]
  by simp

theorem single_channel_auto_resolution_witness:
  "train (with_target (detector default_config) None) series3
     = train (with_target (detector default_config) (Some 0)) series3
   \<and> (\<exists>scores. snd (train (with_target (detector default_config) None) series3)
                  = Inr \<lparr>index = index series3, cols = [scores]\<rparr>
              \<and> length scores = length (index series3))"
proof -
  have n: "length (cols series3) = 1" by (simp add: series3_def)
  show ?thesis
    using single_channel_auto_resolution[OF n, of "detector default_config"] default_valid(1)
    by blast
qed

text \<open>
  C8 as stated fails: with \<open>estimated_points = 0\<close> and \<open>q = 3\<close>, fitting a one-channel
  series of two rows with the index unset raises a \<open>ValueError\<close> (the same-mode convolution
  of line 102 has three entries, the log amplitudes two).
\<close>

theorem unset_target_fit_fails_on_short_series:
  "snd (train (detector (default_config\<lparr>estimated_points := 0\<rparr>)) series2) = Inl ValueError"
proof -
  let ?d = "with_target (detector (default_config\<lparr>estimated_points := 0\<rparr>)) (Some 0)"
  have n: "length (cols series2) = 1" by (simp add: series2_def)
  have w: "working_values ?d series2 None = Inr [1, 3]"
    by (simp add: working_values_def column_def py_index_def series2_def)
  have "get_saliency_map ?d [1, 3] = Inl ValueError"
    by (rule get_saliency_map_short) (simp_all add: detector_def default_config_def)
  then have t: "trimmed_saliency ?d [1, 3] = Inl ValueError"
    by (simp add: trimmed_saliency_def padded_values_def default_config_def)
  show ?thesis
    by (simp add: train_one_channel[OF n] get_anomaly_score_def w t)
qed

text \<open>
  C9, as the code has it. A fit on a series with other than one channel leaves the detector
  as it was; a fit on a one-channel series sets the target index to 0, whatever it was;
  after a fit that returns, the index is set and within \<open>[0, channel_count)\<close> of the
  fitted series. (Scoring takes the detector and returns scores only: it writes nothing.)
\<close>

theorem target_index_resolution:
  "(length (cols f) = 1 \<longrightarrow> fst (train self f) = with_target self (Some 0))
   \<and> (length (cols f) \<noteq> 1 \<longrightarrow> fst (train self f) = self)
   \<and> (\<not> isl (snd (train self f)) \<longrightarrow>
        (\<exists>t. target_seq_index (config (fst (train self f))) = Some t
             \<and> 0 \<le> t \<and> t < int (length (cols f))))"
proof (cases "length (cols f) = 1")
  case True
  then show ?thesis by (simp add: train_one_channel)
next
  case False
  then show ?thesis
    by (auto simp add: train_multi_channel split: option.splits if_splits)
qed

theorem target_index_resolution_witness:
  "fst (train (with_target (detector default_config) (Some 2)) series3)
     = with_target (detector default_config) (Some 0)
   \<and> fst (train (with_target (detector default_config) (Some 2)) three_channels)
     = with_target (detector default_config) (Some 2)
   \<and> (\<exists>t. target_seq_index (config (fst (train (with_target (detector default_config) (Some 2))
                                              three_channels))) = Some t
          \<and> 0 \<le> t \<and> t < int (length (cols three_channels)))"
proof -
  have n: "length (cols series3) = 1" "length (cols three_channels) \<noteq> 1"
    by (simp_all add: series3_def three_channels_def)
  show ?thesis
    using target_index_resolution[of series3 "with_target (detector default_config) (Some 2)",
        unfolded with_target_with_target]
      target_index_resolution[of three_channels "with_target (detector default_config) (Some 2)"]
      three_channels_fit n
    by blast
qed

text \<open>
  C9 as stated fails: a detector configured with index 2 is fitted on three channels (the
  index stays 2, the fit returns) and then on one channel: the index is now 0.
\<close>

theorem later_one_channel_fit_rewrites_target:
  "target_seq_index (config (fst (train (with_target (detector default_config) (Some 2))
                                    three_channels))) = Some 2
   \<and> \<not> isl (snd (train (with_target (detector default_config) (Some 2)) three_channels))
   \<and> target_seq_index (config (fst (train (fst (train (with_target (detector default_config) (Some 2))
                                                  three_channels)) series3))) = Some 0
   \<and> \<not> isl (snd (train (fst (train (with_target (detector default_config) (Some 2))
                                     three_channels)) series3))"
proof -
  let ?d = "with_target (detector default_config) (Some 2)"
  have n: "length (cols series3) = 1" "length (cols three_channels) \<noteq> 1"
    by (simp_all add: series3_def three_channels_def)
  have 1: "fst (train ?d three_channels) = ?d"
    using n(2) by (simp add: train_multi_channel)
  have 2: "fst (train ?d series3) = with_target (detector default_config) (Some 0)"
    using n(1) by (simp add: train_one_channel)
  show ?thesis
    unfolding 1 2 using three_channels_fit series3_fit[of "Some 2"] by simp
qed

text \<open>
  C10, as the code has it. On a one-channel series, whatever target index is configured,
  fitting overwrites it with 0 and is scoring under index 0: it raises no configuration
  error, and it returns whenever the training call is valid.
\<close>

theorem one_channel_never_range_checked:
  assumes "length (cols f) = 1"
  shows "train (with_target self t) f
           = (with_target self (Some 0), get_anomaly_score (with_target self (Some 0)) f None)
       \<and> \<not> config_error (snd (train (with_target self t) f))
       \<and> (valid_training self f \<longrightarrow> \<not> isl (snd (train (with_target self t) f)))"
proof -
  have 1: "train (with_target self t) f
           = (with_target self (Some 0), get_anomaly_score (with_target self (Some 0)) f None)"
    using train_one_channel[OF assms, of "with_target self t"] by simp
  have 3: "valid_training self f \<longrightarrow> \<not> isl (snd (train (with_target self t) f))"
    using train_one_channel_valid[OF assms, of self t] by auto
  show ?thesis
    using 1 3 nce_get_anomaly_score[of "with_target self (Some 0)" f None] by simp
qed

theorem one_channel_never_range_checked_witness:
  "train (with_target (detector default_config) (Some (- 3))) series3
     = (with_target (detector default_config) (Some 0),
        get_anomaly_score (with_target (detector default_config) (Some 0)) series3 None)
   \<and> \<not> config_error (snd (train (with_target (detector default_config) (Some (- 3))) series3))
   \<and> \<not> isl (snd (train (with_target (detector default_config) (Some (- 3))) series3))"
proof -
  have n: "length (cols series3) = 1" by (simp add: series3_def)
  show ?thesis
    using one_channel_never_range_checked[OF n, of "detector default_config" "Some (- 3)"]
      default_valid(1)
    by blast
qed

text \<open>
  C10 as stated fails: with \<open>q = 5\<close> and \<open>estimated_points = 1\<close>, fitting a one-channel
  series of three rows under the configured index 7 raises a \<open>ValueError\<close> (four padded
  values against a same-mode convolution of five entries).
\<close>

theorem out_of_range_target_fit_fails_on_short_padded_series:
  "snd (train (with_target (detector (default_config\<lparr>q := 5, estimated_points := 1\<rparr>)) (Some 7))
          series3) = Inl ValueError"
proof -
  let ?d = "with_target (detector (default_config\<lparr>q := 5, estimated_points := 1\<rparr>)) (Some 0)"
  have n: "length (cols series3) = 1" by (simp add: series3_def)
  have w: "working_values ?d series3 None = Inr [1, 3, 2]"
    by (simp add: working_values_def column_def py_index_def series3_def)
  have e: "estimated_points (config ?d) = 1" "0 \<le> predicting_points (config ?d)"
    by (simp_all add: default_config_def)
  obtain item where "pad ?d [1, 3, 2] = Inr ([1, 3, 2] @ replicate (nat (estimated_points (config ?d))) item)"
    using pad_ok[of "[1, 3, 2]" ?d] e by auto
  then have p: "pad ?d [1, 3, 2] = Inr [1, 3, 2, item]" by (simp add: e)
  have "get_saliency_map ?d [1, 3, 2, item] = Inl ValueError"
    by (rule get_saliency_map_short) (simp_all add: detector_def default_config_def)
  then have t: "trimmed_saliency ?d [1, 3, 2] = Inl ValueError"
    by (simp add: trimmed_saliency_def padded_values_def e p)
  show ?thesis
    using train_one_channel[OF n, of "with_target (detector (default_config\<lparr>q := 5, estimated_points := 1\<rparr>)) (Some 7)"]
    by (simp add: get_anomaly_score_def w t)
qed

end
